theory Spec2Isabelle
  imports Main "HOL-Library.Word" "HOL-Library.AList"
begin

section \<open>Basic types\<close>

text \<open>
  Go's \<open>int\<close> and \<open>int64\<close> are 64-bit two's complement integers on the App Engine
  runtime: \<open>+\<close> wraps, \<open>sint\<close> reads the signed value. A \<open>[]byte\<close> is a list of
  8-bit words, a \<open>time.Time\<close> an instant counted in nanoseconds.
\<close>

type_synonym go_int = "64 word"
type_synonym bytes = "8 word list"
type_synonym Time = int

text \<open>
  The values of Go's \<open>error\<close> that the two packages meet: the sentinel errors they
  compare against or create, the two errors of \<open>strconv\<close>, the errors the datastore
  client raises by itself, and \<open>ErrService\<close> for any failure of a remote service
  (datastore, memcache, Telegram, Cloud Storage, Knowledge Graph).
\<close>

datatype error =
    ErrNoSuchEntity
  | ErrorOnlyAdminCanUpdateInventory
  | ErrCacheMiss
  | ErrSyntax
  | ErrRange
  | ErrQuery string
  | ErrTransaction string
  | ErrService string

text \<open>
  A remote call either goes through or suffers a service failure. Which of the two
  happens is the environment's choice, so every function takes, for each remote call
  it makes, the failure that call suffers (\<open>None\<close>: the call goes through).
\<close>

type_synonym fault = "string option"

section \<open>Package models: the inventory store\<close>

subsection \<open>Data model\<close>

text \<open>
  \<open>datastore.NewKey(ctx, kind, stringID, intID, nil)\<close>: every key of these packages
  is a root key (no parent), so each key is an entity group of its own.
\<close>

datatype Key = NewKey (Kind: string) (StringID: string) (IntID: go_int)

record Inventory =
  FileID :: string
  FileType :: string
  Personality :: "Key list"
  Creator :: go_int
  UsageCount :: go_int
  LastUsed :: Time
  MD5Sum :: bytes
  FileSize :: go_int

text \<open>\<open>new(Inventory)\<close>: every field at its zero value.\<close>

definition new_Inventory :: Inventory where
  "new_Inventory =
     \<lparr>FileID = [], FileType = [], Personality = [], Creator = 0, UsageCount = 0,
      LastUsed = 0, MD5Sum = [], FileSize = 0\<rparr>"

definition maxItems :: nat where
  "maxItems = 50"

text \<open>
  Modelled from the spec: the constant \<open>inventoryEntityKind\<close> is declared in a file of
  package models that is not among the sources; it is the fixed kind name under which
  inventory records are stored.
\<close>

definition inventoryEntityKind :: string where
  "inventoryEntityKind = ''Inventory''"

definition inventoryKey :: "string \<Rightarrow> Key" where
  "inventoryKey fileID = NewKey inventoryEntityKind fileID 0"

subsection \<open>The datastore\<close>

text \<open>
  The backing store holds the inventory entities by key. A context is either the plain
  request context or the context of the running transaction. Writes made through the
  plain context reach the store at once; writes made through the transaction's context
  are buffered and reach the store together when the transaction commits, reads made
  through it see the store as it was when the transaction began. \<open>history\<close> lists every
  value the store has taken, in order: these are the states another client can observe.
  \<open>events\<close> lists the calls to the other external services and the log lines written.
\<close>

type_synonym store = "(Key \<times> Inventory) list"

datatype ctx = Background | Transactional

datatype severity = Info | Warning | Critical

datatype event =
    FetchFileInfoCall string
  | StoreFileToGCSCall string bytes
  | LogLine severity string

record txn =
  snapshot :: store
  pending :: "(Key \<times> Inventory option) list"
  touched :: "Key list"
  cross_group :: bool

record world =
  committed :: store
  history :: "store list"
  open_txn :: "txn option"
  events :: "event list"

definition lookup :: "store \<Rightarrow> Key \<Rightarrow> error + Inventory" where
  "lookup s k = (case map_of s k of None \<Rightarrow> Inl ErrNoSuchEntity | Some e \<Rightarrow> Inr e)"

definition write_store :: "store \<Rightarrow> world \<Rightarrow> world" where
  "write_store s w = w\<lparr>committed := s, history := history w @ [s]\<rparr>"

definition emit :: "event \<Rightarrow> world \<Rightarrow> world" where
  "emit ev w = w\<lparr>events := events w @ [ev]\<rparr>"

text \<open>
  A transaction without the \<open>XG\<close> option may touch one entity group only; with it, up
  to 25. The datastore refuses the operation that would touch one group too many.
\<close>

definition touch :: "txn \<Rightarrow> Key \<Rightarrow> txn option" where
  "touch t k =
     (if k \<in> set (touched t) then Some t
      else if touched t = [] \<or> (cross_group t \<and> length (touched t) < 25)
      then Some (t\<lparr>touched := k # touched t\<rparr>)
      else None)"

definition in_txn :: "world \<Rightarrow> Key \<Rightarrow> error + txn" where
  "in_txn w k =
     (case open_txn w of
        None \<Rightarrow> Inl (ErrTransaction ''transaction expired'')
      | Some t \<Rightarrow>
          (case touch t k of
             None \<Rightarrow> Inl (ErrTransaction ''cross-group transaction need to be explicitly specified'')
           | Some t' \<Rightarrow> Inr t'))"

text \<open>
  Package \<open>nds\<close> puts a memcache in front of the datastore and keeps the datastore's
  contract; the model takes \<open>nds.Get\<close>, \<open>nds.Put\<close>, \<open>nds.Delete\<close>, \<open>nds.GetMulti\<close> and
  \<open>nds.RunInTransaction\<close> as the datastore operations they stand for.
\<close>

text \<open>
  \<open>err := nds.Get(ctx, key, i)\<close>: returns the error and the new content of \<open>i\<close>, which
  is the entity read on success and is left as it was on an error. (Every field of an
  \<open>Inventory\<close> is stored, so loading an entity sets every field.)
\<close>

definition load :: "store \<Rightarrow> Key \<Rightarrow> Inventory \<Rightarrow> Inventory \<times> error option" where
  "load s k i = (case lookup s k of Inl e \<Rightarrow> (i, Some e) | Inr got \<Rightarrow> (got, None))"

definition nds_Get ::
  "ctx \<Rightarrow> Key \<Rightarrow> Inventory \<Rightarrow> fault \<Rightarrow> world \<Rightarrow> (Inventory \<times> error option) \<times> world" where
  "nds_Get c k i flt w =
     (case flt of
        Some m \<Rightarrow> ((i, Some (ErrService m)), w)
      | None \<Rightarrow>
          (case c of
             Background \<Rightarrow> (load (committed w) k i, w)
           | Transactional \<Rightarrow>
               (case in_txn w k of
                  Inl e \<Rightarrow> ((i, Some e), w)
                | Inr t \<Rightarrow> (load (snapshot t) k i, w\<lparr>open_txn := Some t\<rparr>))))"

text \<open>\<open>nds.Put(ctx, key, i)\<close>; the key it returns is never used by the callers.\<close>

definition nds_Put :: "ctx \<Rightarrow> Key \<Rightarrow> Inventory \<Rightarrow> fault \<Rightarrow> world \<Rightarrow> error option \<times> world" where
  "nds_Put c k e flt w =
     (case flt of
        Some m \<Rightarrow> (Some (ErrService m), w)
      | None \<Rightarrow>
          (case c of
             Background \<Rightarrow> (None, write_store (AList.update k e (committed w)) w)
           | Transactional \<Rightarrow>
               (case in_txn w k of
                  Inl e' \<Rightarrow> (Some e', w)
                | Inr t \<Rightarrow> (None, w\<lparr>open_txn := Some (t\<lparr>pending := pending t @ [(k, Some e)]\<rparr>)\<rparr>))))"

definition nds_Delete :: "ctx \<Rightarrow> Key \<Rightarrow> fault \<Rightarrow> world \<Rightarrow> error option \<times> world" where
  "nds_Delete c k flt w =
     (case flt of
        Some m \<Rightarrow> (Some (ErrService m), w)
      | None \<Rightarrow>
          (case c of
             Background \<Rightarrow> (None, write_store (AList.delete k (committed w)) w)
           | Transactional \<Rightarrow>
               (case in_txn w k of
                  Inl e' \<Rightarrow> (Some e', w)
                | Inr t \<Rightarrow> (None, w\<lparr>open_txn := Some (t\<lparr>pending := pending t @ [(k, None)]\<rparr>)\<rparr>))))"

text \<open>The buffered writes of a transaction, applied in the order they were made.\<close>

fun apply_pending :: "(Key \<times> Inventory option) list \<Rightarrow> store \<Rightarrow> store" where
  "apply_pending [] s = s"
| "apply_pending ((k, Some e) # ms) s = apply_pending ms (AList.update k e s)"
| "apply_pending ((k, None) # ms) s = apply_pending ms (AList.delete k s)"

definition commit :: "world \<Rightarrow> world" where
  "commit w =
     (case open_txn w of
        None \<Rightarrow> w
      | Some t \<Rightarrow>
          (if pending t = [] then w\<lparr>open_txn := None\<rparr>
           else write_store (apply_pending (pending t) (committed w)) (w\<lparr>open_txn := None\<rparr>)))"

definition rollback :: "world \<Rightarrow> world" where
  "rollback w = w\<lparr>open_txn := None\<rparr>"

text \<open>
  \<open>nds.RunInTransaction(ctx, f, opts)\<close>, called with the plain request context: begins
  a transaction, runs \<open>f\<close> with the transaction's context, rolls back when \<open>f\<close> returns
  an error and commits otherwise; beginning and committing are remote calls and can
  fail. \<open>xg\<close> is the option \<open>XG\<close> of \<open>opts\<close>. The variables that the Go closure captures
  and assigns are passed through \<open>f\<close> as the value \<open>v\<close>. The model is sequential, so the
  error \<open>ErrConcurrentTransaction\<close>, the only one after which the library runs \<open>f\<close>
  again, does not arise.
\<close>

definition RunInTransaction ::
  "(ctx \<Rightarrow> 'a \<Rightarrow> world \<Rightarrow> ('a \<times> error option) \<times> world) \<Rightarrow> 'a \<Rightarrow> bool \<Rightarrow>
   fault \<Rightarrow> fault \<Rightarrow> world \<Rightarrow> ('a \<times> error option) \<times> world" where
  "RunInTransaction f v xg fBegin fCommit w =
     (case fBegin of
        Some m \<Rightarrow> ((v, Some (ErrService m)), w)
      | None \<Rightarrow>
          (case f Transactional v
                  (w\<lparr>open_txn := Some \<lparr>snapshot = committed w, pending = [], touched = [],
                                         cross_group = xg\<rparr>\<rparr>) of
             ((v', Some e), w') \<Rightarrow> ((v', Some e), rollback w')
           | ((v', None), w') \<Rightarrow>
               (case fCommit of
                  Some m \<Rightarrow> ((v', Some (ErrService m)), rollback w')
                | None \<Rightarrow> ((v', None), commit w'))))"

subsection \<open>Queries\<close>

text \<open>
  A \<open>datastore.Query\<close> is built step by step; a step that is given a bad argument
  records an error in the query, and running such a query returns that error.
  \<open>Filter_eq name v\<close> stands for \<open>Filter("name =", v)\<close>, the only operator used. An
  order is the property name, with a leading \<open>-\<close> for descending. A negative limit
  means no limit, as in the library.
\<close>

datatype qvalue = VInt go_int | VBytes bytes | VKey Key

record Query =
  q_kind :: string
  q_filters :: "(string \<times> qvalue) list"
  q_order :: "string list"
  q_limit :: int
  q_offset :: nat
  q_keysOnly :: bool
  q_err :: "error option"

definition NewQuery :: "string \<Rightarrow> Query" where
  "NewQuery kind =
     \<lparr>q_kind = kind, q_filters = [], q_order = [], q_limit = - 1, q_offset = 0,
      q_keysOnly = False, q_err = None\<rparr>"

definition KeysOnly :: "Query \<Rightarrow> Query" where
  "KeysOnly q = q\<lparr>q_keysOnly := True\<rparr>"

definition Filter_eq :: "string \<Rightarrow> qvalue \<Rightarrow> Query \<Rightarrow> Query" where
  "Filter_eq name v q = q\<lparr>q_filters := q_filters q @ [(name, v)]\<rparr>"

definition Order :: "string \<Rightarrow> Query \<Rightarrow> Query" where
  "Order name q = q\<lparr>q_order := q_order q @ [name]\<rparr>"

definition Limit :: "go_int \<Rightarrow> Query \<Rightarrow> Query" where
  "Limit n q =
     (if sint n < - (2 ^ 31) \<or> 2 ^ 31 - 1 < sint n
      then q\<lparr>q_err := Some (ErrQuery ''datastore: query limit overflow'')\<rparr>
      else q\<lparr>q_limit := sint n\<rparr>)"

definition Offset :: "go_int \<Rightarrow> Query \<Rightarrow> Query" where
  "Offset n q =
     (if sint n < 0 then q\<lparr>q_err := Some (ErrQuery ''datastore: negative query offset'')\<rparr>
      else if 2 ^ 31 - 1 < sint n
      then q\<lparr>q_err := Some (ErrQuery ''datastore: query offset overflow'')\<rparr>
      else q\<lparr>q_offset := nat (sint n)\<rparr>)"

text \<open>An equality filter on a list property holds when one of its elements is equal.\<close>

definition prop_matches :: "Inventory \<Rightarrow> string \<times> qvalue \<Rightarrow> bool" where
  "prop_matches e f =
     (if fst f = ''FileSize'' then snd f = VInt (FileSize e)
      else if fst f = ''MD5Sum'' then snd f = VBytes (MD5Sum e)
      else if fst f = ''Personality'' then snd f \<in> set (map VKey (Personality e))
      else False)"

definition matching :: "Query \<Rightarrow> store \<Rightarrow> store" where
  "matching q s =
     filter (\<lambda>ke. Kind (fst ke) = q_kind q \<and> list_all (prop_matches (snd ke)) (q_filters q)) s"

text \<open>
  Results with equal sort values come in the store's own enumeration order, which
  stands for the datastore's key order.
\<close>

definition order_results :: "string list \<Rightarrow> store \<Rightarrow> store" where
  "order_results os rs =
     (if os = [''-UsageCount''] then sort_key (\<lambda>ke. - sint (UsageCount (snd ke))) rs
      else if os = [''-LastUsed''] then sort_key (\<lambda>ke. - LastUsed (snd ke)) rs
      else rs)"

definition run_query :: "Query \<Rightarrow> store \<Rightarrow> store" where
  "run_query q s =
     (if q_limit q < 0 then drop (q_offset q) (order_results (q_order q) (matching q s))
      else take (nat (q_limit q)) (drop (q_offset q) (order_results (q_order q) (matching q s))))"

text \<open>\<open>q.GetAll(ctx, nil)\<close> of a keys-only query, and \<open>q.Count(ctx)\<close>.\<close>

definition GetAll :: "Query \<Rightarrow> fault \<Rightarrow> world \<Rightarrow> error + Key list" where
  "GetAll q flt w =
     (case q_err q of
        Some e \<Rightarrow> Inl e
      | None \<Rightarrow>
          (case flt of
             Some m \<Rightarrow> Inl (ErrService m)
           | None \<Rightarrow> Inr (map fst (run_query q (committed w)))))"

definition Count :: "Query \<Rightarrow> fault \<Rightarrow> world \<Rightarrow> error + nat" where
  "Count q flt w =
     (case q_err q of
        Some e \<Rightarrow> Inl e
      | None \<Rightarrow>
          (case flt of
             Some m \<Rightarrow> Inl (ErrService m)
           | None \<Rightarrow> Inr (length (run_query q (committed w)))))"

text \<open>
  \<open>nds.GetMulti(ctx, keys, dst)\<close> through the plain context: all the entities, or an
  error when the call fails or a key has no entity.
\<close>

fun collect :: "(error + Inventory) list \<Rightarrow> error + Inventory list" where
  "collect [] = Inr []"
| "collect (Inl e # rs) = Inl e"
| "collect (Inr i # rs) = (case collect rs of Inl e \<Rightarrow> Inl e | Inr is \<Rightarrow> Inr (i # is))"

definition nds_GetMulti :: "Key list \<Rightarrow> fault \<Rightarrow> world \<Rightarrow> error + Inventory list" where
  "nds_GetMulti ks flt w =
     (case flt of
        Some m \<Rightarrow> Inl (ErrService m)
      | None \<Rightarrow> collect (map (lookup (committed w)) ks))"

subsection \<open>strconv\<close>

text \<open>
  \<open>strconv.Atoi\<close> reads an optional sign and decimal digits. On a character that
  is not a digit, or when there is no digit, it returns 0 and \<open>ErrSyntax\<close>; when the
  value does not fit 64 bits it returns the nearest bound and \<open>ErrRange\<close>. The loop is
  the one of \<open>ParseUint\<close>: it stops at the first overflow, before it looks at the
  characters that follow.
\<close>

definition is_digit :: "char \<Rightarrow> bool" where
  "is_digit c = (48 \<le> (of_char c :: nat) \<and> (of_char c :: nat) \<le> 57)"

definition digit_of :: "char \<Rightarrow> nat" where
  "digit_of c = of_char c - 48"

fun ParseUint_loop :: "nat \<Rightarrow> string \<Rightarrow> nat \<times> error option" where
  "ParseUint_loop n [] = (n, None)"
| "ParseUint_loop n (c # cs) =
     (if \<not> is_digit c then (0, Some ErrSyntax)
      else if (2 ^ 64 - 1) div 10 + 1 \<le> n then (2 ^ 64 - 1, Some ErrRange)
      else if 2 ^ 64 - 1 < n * 10 + digit_of c then (2 ^ 64 - 1, Some ErrRange)
      else ParseUint_loop (n * 10 + digit_of c) cs)"

definition ParseUint :: "string \<Rightarrow> nat \<times> error option" where
  "ParseUint s = (if s = [] then (0, Some ErrSyntax) else ParseUint_loop 0 s)"

definition ParseInt :: "string \<Rightarrow> go_int \<times> error option" where
  "ParseInt s =
     (if s = [] then (0, Some ErrSyntax)
      else
        (let neg = (hd s = CHR ''-'');
             body = (if hd s = CHR ''+'' \<or> hd s = CHR ''-'' then tl s else s)
         in case ParseUint body of
              (un, Some ErrSyntax) \<Rightarrow> (0, Some ErrSyntax)
            | (un, _) \<Rightarrow>
                (if \<not> neg \<and> 2 ^ 63 \<le> un then (word_of_nat (2 ^ 63 - 1), Some ErrRange)
                 else if neg \<and> 2 ^ 63 < un then (word_of_nat (2 ^ 63), Some ErrRange)
                 else (if neg then - word_of_nat un else word_of_nat un, None))))"

definition Atoi :: "string \<Rightarrow> go_int \<times> error option" where
  "Atoi s = ParseInt s"

text \<open>\<open>strconv.Itoa\<close>: the decimal digits of the signed value, after a \<open>-\<close> when negative.\<close>

fun decimal :: "nat \<Rightarrow> string" where
  "decimal n =
     (if n < 10 then [char_of (48 + n)] else decimal (n div 10) @ [char_of (48 + n mod 10)])"

declare decimal.simps [simp del]

definition Itoa :: "go_int \<Rightarrow> string" where
  "Itoa i = (if sint i < 0 then CHR ''-'' # decimal (nat (- sint i)) else decimal (nat (sint i)))"

subsection \<open>GetInventory\<close>

definition GetInventory :: "string \<Rightarrow> fault \<Rightarrow> world \<Rightarrow> (Inventory \<times> error option) \<times> world" where
  "GetInventory fileID fGet w = nds_Get Background (inventoryKey fileID) new_Inventory fGet w"

subsection \<open>ReplaceFileID\<close>

text \<open>
  The closure handed to \<open>RunInTransaction\<close>; its parameter \<open>ctx\<close> is the transaction's
  context, and it assigns the captured \<open>i\<close>.
\<close>

definition ReplaceFileID_body ::
  "string \<Rightarrow> string \<Rightarrow> fault \<Rightarrow> fault \<Rightarrow> fault \<Rightarrow> ctx \<Rightarrow> Inventory \<Rightarrow> world \<Rightarrow>
   (Inventory \<times> error option) \<times> world" where
  "ReplaceFileID_body oldFileID newFileID fGet fDelete fPut c i w =
     (case nds_Get c (inventoryKey oldFileID) i fGet w of
        ((i1, Some err), w1) \<Rightarrow> ((i1, Some err), w1)
      | ((i1, None), w1) \<Rightarrow>
          (case nds_Delete c (inventoryKey oldFileID) fDelete w1 of
             (Some err, w2) \<Rightarrow> ((i1\<lparr>FileID := newFileID\<rparr>, Some err), w2)
           | (None, w2) \<Rightarrow>
               (case nds_Put c (inventoryKey newFileID) (i1\<lparr>FileID := newFileID\<rparr>) fPut w2 of
                  (err, w3) \<Rightarrow> ((i1\<lparr>FileID := newFileID\<rparr>, err), w3))))"

definition ReplaceFileID ::
  "string \<Rightarrow> string \<Rightarrow> fault \<Rightarrow> fault \<Rightarrow> fault \<Rightarrow> fault \<Rightarrow> fault \<Rightarrow> world \<Rightarrow>
   (Inventory \<times> error option) \<times> world" where
  "ReplaceFileID oldFileID newFileID fBegin fGet fDelete fPut fCommit w =
     RunInTransaction (ReplaceFileID_body oldFileID newFileID fGet fDelete fPut)
       new_Inventory True fBegin fCommit w"

subsection \<open>GetInventoryByFile\<close>

text \<open>
  \<open>tgapi.FetchFileInfo(ctx, fileID)\<close> belongs to a package that is not among the
  sources. It returns a file description, the file's bytes and an error; what it
  returns on a given call is the environment's choice and is passed in as \<open>fetched\<close>.
  \<open>md5.Sum\<close> is passed in as \<open>md5_Sum\<close>.
\<close>

record File =
  tg_FileID :: string
  tg_FileSize :: go_int

type_synonym fetch_result = "File \<times> bytes \<times> error option"

definition GetInventoryByFile ::
  "string \<Rightarrow> go_int \<Rightarrow> (bytes \<Rightarrow> bytes) \<Rightarrow> fault \<Rightarrow> fetch_result \<Rightarrow> fault \<Rightarrow> fault \<Rightarrow> world \<Rightarrow>
   (Inventory option \<times> error option) \<times> world" where
  "GetInventoryByFile fileID fileSize md5_Sum fCount fetched fGetAll fGet w =
     (case Count (Filter_eq ''FileSize'' (VInt fileSize) (NewQuery inventoryEntityKind)) fCount w of
        Inl err \<Rightarrow> ((None, Some err), w)
      | Inr count \<Rightarrow>
          (if count = 0 then ((None, None), w)
           else
             (case fetched of
                (file, b, err) \<Rightarrow>
                  (case GetAll (KeysOnly (Filter_eq ''MD5Sum'' (VBytes (md5_Sum b))
                                  (NewQuery inventoryEntityKind)))
                          fGetAll (emit (FetchFileInfoCall fileID) w) of
                     Inl err \<Rightarrow> ((None, Some err), emit (FetchFileInfoCall fileID) w)
                   | Inr keys \<Rightarrow>
                       (if length keys = 0 then ((None, None), emit (FetchFileInfoCall fileID) w)
                        else if 1 < length keys
                        then ((None, None),
                              emit (LogLine Critical ''Hash conflict (%x)!'')
                                (emit (FetchFileInfoCall fileID) w))
                        else
                          (case nds_Get Background (hd keys) new_Inventory fGet
                                  (emit (FetchFileInfoCall fileID) w) of
                             ((i, err), w') \<Rightarrow> ((Some i, err), w')))))))"

subsection \<open>CreateInventory\<close>

text \<open>
  Modelled from the spec: the type \<open>Config\<close> is declared in a file of package models
  that is not among the sources; of a configuration only the method \<open>IsAdmin\<close> is
  used, which tells whether a user is an administrator.
\<close>

record Config =
  IsAdmin :: "go_int \<Rightarrow> bool"

text \<open>
  The constant \<open>utils.FileTypeMPEG4GIF\<close> is declared outside the sources and passed in
  as \<open>FileTypeMPEG4GIF\<close>; \<open>now\<close> is what \<open>time.Now()\<close> returns.
\<close>

definition CreateInventory ::
  "string \<Rightarrow> Key list \<Rightarrow> go_int \<Rightarrow> Config \<Rightarrow> string \<Rightarrow> Time \<Rightarrow> fault \<Rightarrow> fault \<Rightarrow> world \<Rightarrow>
   (Inventory option \<times> error option) \<times> world" where
  "CreateInventory fileID personality userID config FileTypeMPEG4GIF now fGet fPut w =
     (case nds_Get Background (inventoryKey fileID) new_Inventory fGet w of
        ((i, err), w1) \<Rightarrow>
          (if err = None \<and> \<not> (IsAdmin config userID \<or> Creator i = userID)
           then ((None, Some ErrorOnlyAdminCanUpdateInventory), w1)
           else if err \<noteq> None \<and> err \<noteq> Some ErrNoSuchEntity then ((None, err), w1)
           else
             (let i1 = i\<lparr>FileID := fileID, FileType := FileTypeMPEG4GIF,
                         Personality := personality, LastUsed := now\<rparr>;
                  i2 = (if Creator i1 = 0 then i1\<lparr>Creator := userID\<rparr> else i1)
              in case nds_Put Background (inventoryKey fileID) i2 fPut w1 of
                   (err', w2) \<Rightarrow> ((Some i2, err'), w2))))"

subsection \<open>FindInventories\<close>

text \<open>
  The query that lines 121 to 132 build, and the value \<open>offset\<close> that \<open>strconv.Atoi\<close>
  returns for the cursor: \<open>Offset\<close> is called when \<open>Atoi\<close> returns an error.
\<close>

definition FindInventories_query :: "Key list \<Rightarrow> string \<Rightarrow> Query \<times> go_int" where
  "FindInventories_query personalities lastCursor =
     (let q = KeysOnly (NewQuery inventoryEntityKind);
          q = fold (\<lambda>personality. Filter_eq ''Personality'' (VKey personality)) personalities q;
          q = Limit (word_of_nat maxItems) (Order ''-UsageCount'' q)
      in case Atoi lastCursor of
           (offset, err) \<Rightarrow> (if err \<noteq> None then (Offset offset q, offset) else (q, offset)))"

definition FindInventories ::
  "Key list \<Rightarrow> string \<Rightarrow> fault \<Rightarrow> fault \<Rightarrow> world \<Rightarrow> Inventory list \<times> string \<times> error option" where
  "FindInventories personalities lastCursor fGetAll fGetMulti w =
     (case FindInventories_query personalities lastCursor of
        (q, offset) \<Rightarrow>
          (case GetAll q fGetAll w of
             Inl err \<Rightarrow> ([], [], Some err)
           | Inr keys \<Rightarrow>
               (if length keys = 0 then ([], [], None)
                else
                  (case nds_GetMulti keys fGetMulti w of
                     Inl err \<Rightarrow> ([], [], Some err)
                   | Inr inventories \<Rightarrow>
                       (inventories,
                        (if length keys = maxItems then Itoa (offset + word_of_nat maxItems) else []),
                        None)))))"

subsection \<open>IncrementUsageCounter\<close>

definition IncrementUsageCounter_body ::
  "string \<Rightarrow> Time \<Rightarrow> fault \<Rightarrow> fault \<Rightarrow> ctx \<Rightarrow> unit \<Rightarrow> world \<Rightarrow> (unit \<times> error option) \<times> world" where
  "IncrementUsageCounter_body fileID now fGet fPut c u w =
     (case nds_Get c (inventoryKey fileID) new_Inventory fGet w of
        ((i, Some err), w1) \<Rightarrow>
          (if err = ErrNoSuchEntity then (((), None), w1) else (((), Some err), w1))
      | ((i, None), w1) \<Rightarrow>
          (case nds_Put c (inventoryKey fileID)
                  (i\<lparr>UsageCount := UsageCount i + 1, LastUsed := now\<rparr>) fPut w1 of
             (err, w2) \<Rightarrow> (((), err), w2)))"

definition IncrementUsageCounter ::
  "string \<Rightarrow> Time \<Rightarrow> fault \<Rightarrow> fault \<Rightarrow> fault \<Rightarrow> fault \<Rightarrow> world \<Rightarrow> error option \<times> world" where
  "IncrementUsageCounter fileID now fBegin fGet fPut fCommit w =
     (case RunInTransaction (IncrementUsageCounter_body fileID now fGet fPut) () False
             fBegin fCommit w of
        ((u, err), w') \<Rightarrow> (err, w'))"

subsection \<open>UpdateFileMetadata\<close>

text \<open>
  The closure handed to \<open>RunInTransaction\<close>. Its parameter is named \<open>tc\<close>; the calls
  in its body are made with \<open>ctx\<close>, the context of the enclosing function.
\<close>

definition UpdateFileMetadata_body ::
  "ctx \<Rightarrow> string \<Rightarrow> string \<Rightarrow> bytes \<Rightarrow> go_int \<Rightarrow> fault \<Rightarrow> fault \<Rightarrow> fault \<Rightarrow> ctx \<Rightarrow> unit \<Rightarrow> world \<Rightarrow>
   (unit \<times> error option) \<times> world" where
  "UpdateFileMetadata_body ctx oldFileID newFileID md5sum fileSize fGet fDelete fPut tc u w =
     (case nds_Get ctx (inventoryKey oldFileID) new_Inventory fGet w of
        ((i, Some err), w1) \<Rightarrow>
          (if err = ErrNoSuchEntity then (((), None), w1) else (((), Some err), w1))
      | ((i, None), w1) \<Rightarrow>
          (if oldFileID \<noteq> newFileID
           then
             (case nds_Delete ctx (inventoryKey oldFileID) fDelete w1 of
                (Some err, w2) \<Rightarrow> (((), Some err), w2)
              | (None, w2) \<Rightarrow>
                  (case nds_Put ctx (inventoryKey newFileID)
                          (i\<lparr>FileID := newFileID, MD5Sum := md5sum, FileSize := fileSize\<rparr>) fPut w2 of
                     (err, w3) \<Rightarrow> (((), err), w3)))
           else
             (case nds_Put ctx (inventoryKey newFileID)
                     (i\<lparr>FileID := newFileID, MD5Sum := md5sum, FileSize := fileSize\<rparr>) fPut w1 of
                (err, w3) \<Rightarrow> (((), err), w3))))"

text \<open>
  \<open>isDev\<close> is what \<open>appengine.IsDevAppServer()\<close> returns, \<open>fStore\<close> the failure of
  \<open>utils.StoreFileToGCS\<close>, a function declared outside the sources.
\<close>

definition UpdateFileMetadata ::
  "string \<Rightarrow> (bytes \<Rightarrow> bytes) \<Rightarrow> fetch_result \<Rightarrow> bool \<Rightarrow> fault \<Rightarrow> fault \<Rightarrow> fault \<Rightarrow> fault \<Rightarrow> fault \<Rightarrow>
   fault \<Rightarrow> world \<Rightarrow> error option \<times> world" where
  "UpdateFileMetadata oldFileID md5_Sum fetched isDev fStore fBegin fGet fDelete fPut fCommit w =
     (case fetched of
        (file, b, Some err) \<Rightarrow> (Some err, emit (FetchFileInfoCall oldFileID) w)
      | (file, b, None) \<Rightarrow>
          (let w1 = emit (FetchFileInfoCall oldFileID) w;
               w2 = (if tg_FileID file \<noteq> oldFileID
                     then emit (LogLine Info ''Detected FileID change %s -> %s'') w1 else w1);
               w3 = (if \<not> isDev then emit (StoreFileToGCSCall (tg_FileID file) b) w2 else w2)
           in if \<not> isDev \<and> fStore \<noteq> None then (map_option ErrService fStore, w3)
              else
                (case RunInTransaction
                        (UpdateFileMetadata_body Background oldFileID (tg_FileID file) (md5_Sum b)
                           (tg_FileSize file) fGet fDelete fPut)
                        () False fBegin fCommit
                        (emit (LogLine Info ''File %s: %x (%d bytes)'') w3) of
                   ((u, err), w') \<Rightarrow> (err, w'))))"

section \<open>Package utils: the Knowledge Graph lookup\<close>

subsection \<open>Values and the cache\<close>

text \<open>
  A decoded JSON value as Go holds it in an \<open>interface{}\<close>: nil, a string, a
  \<open>map[string]interface{}\<close>, or a value of another type. A type assertion on a value
  of the wrong type panics, and so a function either returns or panics.
\<close>

datatype jvalue = JNil | JString string | JMap "(string \<times> jvalue) list" | JOther

datatype 'a outcome = Return 'a | Panic

definition index :: "(string \<times> jvalue) list \<Rightarrow> string \<Rightarrow> jvalue" where
  "index m k = (case map_of m k of None \<Rightarrow> JNil | Some v \<Rightarrow> v)"

definition TrimPrefix :: "string \<Rightarrow> string \<Rightarrow> string" where
  "TrimPrefix s p = (if take (length p) s = p then drop (length p) s else s)"

text \<open>
  The memcache holds, under each key, a value and the instant at which it expires.
  \<open>kg_events\<close> lists the searches sent to the Knowledge Graph service (query,
  languages, types, limit) and the log lines written.
\<close>

datatype kg_event =
    KGSearchCall string "string list" "string list" nat
  | KGLogLine severity string

record kg_world =
  memcache :: "(string \<times> string \<times> Time) list"
  kg_events :: "kg_event list"

definition Hour :: int where
  "Hour = 3600 * 1000000000"

definition memcache_Get :: "Time \<Rightarrow> string \<Rightarrow> fault \<Rightarrow> kg_world \<Rightarrow> error + string" where
  "memcache_Get now key flt w =
     (case flt of
        Some m \<Rightarrow> Inl (ErrService m)
      | None \<Rightarrow>
          (case map_of (memcache w) key of
             None \<Rightarrow> Inl ErrCacheMiss
           | Some (v, expires) \<Rightarrow> (if now < expires then Inr v else Inl ErrCacheMiss)))"

definition memcache_Set ::
  "Time \<Rightarrow> string \<Rightarrow> string \<Rightarrow> int \<Rightarrow> fault \<Rightarrow> kg_world \<Rightarrow> error option \<times> kg_world" where
  "memcache_Set now key v expiration flt w =
     (case flt of
        Some m \<Rightarrow> (Some (ErrService m), w)
      | None \<Rightarrow> (None, w\<lparr>memcache := AList.update key (v, now + expiration) (memcache w)\<rparr>))"

definition kgMemcacheKey :: string where
  "kgMemcacheKey = ''KG1:''"

subsection \<open>The lookup\<close>

text \<open>
  \<open>fService\<close> is the failure of \<open>kgsearch.NewService\<close>, \<open>reply\<close> what \<open>req.Do()\<close>
  returns: an error, or the response's \<open>ItemListElement\<close>.
\<close>

definition sendKGEntityQuery ::
  "string \<Rightarrow> fault \<Rightarrow> error + jvalue list \<Rightarrow> kg_world \<Rightarrow>
   ((string \<times> jvalue) list option \<times> error option) outcome \<times> kg_world" where
  "sendKGEntityQuery query fService reply w =
     (case fService of
        Some m \<Rightarrow> (Return (None, Some (ErrService m)), w)
      | None \<Rightarrow>
          (case reply of
             Inl err \<Rightarrow>
               (Return (None, Some err),
                w\<lparr>kg_events := kg_events w @ [KGSearchCall query [''ja'', ''zh''] [''Person''] 1]\<rparr>)
           | Inr items \<Rightarrow>
               (case items of
                  [] \<Rightarrow> Return (None, None)
                | item # rest \<Rightarrow>
                    (case item of
                       JMap m \<Rightarrow>
                         (case index m ''result'' of
                            JMap result \<Rightarrow> Return (Some result, None)
                          | _ \<Rightarrow> Panic)
                     | _ \<Rightarrow> Panic),
                w\<lparr>kg_events := kg_events w @ [KGSearchCall query [''ja'', ''zh''] [''Person''] 1]\<rparr>)))"

definition tryFindKGEntityInternal ::
  "string \<Rightarrow> fault \<Rightarrow> error + jvalue list \<Rightarrow> kg_world \<Rightarrow> (string \<times> error option) outcome \<times> kg_world" where
  "tryFindKGEntityInternal query fService reply w =
     (case sendKGEntityQuery query fService reply w of
        (Panic, w') \<Rightarrow> (Panic, w')
      | (Return (result, Some err), w') \<Rightarrow> (Return ([], Some err), w')
      | (Return (None, None), w') \<Rightarrow> (Return ([], None), w')
      | (Return (Some result, None), w') \<Rightarrow>
          (case index result ''@id'' of
             JString s \<Rightarrow> (Return (TrimPrefix s ''kg:'', None), w')
           | _ \<Rightarrow> (Panic, w')))"

definition getKGMemcacheKey :: "string \<Rightarrow> string" where
  "getKGMemcacheKey query = kgMemcacheKey @ query"

definition getKGMemcache :: "Time \<Rightarrow> string \<Rightarrow> fault \<Rightarrow> kg_world \<Rightarrow> string option" where
  "getKGMemcache now query fGet w =
     (case memcache_Get now (getKGMemcacheKey query) fGet w of
        Inr v \<Rightarrow> Some v
      | Inl err \<Rightarrow> None)"

definition setKGMemcache :: "Time \<Rightarrow> string \<Rightarrow> string \<Rightarrow> fault \<Rightarrow> kg_world \<Rightarrow> kg_world" where
  "setKGMemcache now query result fSet w =
     snd (memcache_Set now (getKGMemcacheKey query) result (4 * Hour) fSet w)"

definition TryFindKGEntity ::
  "Time \<Rightarrow> string \<Rightarrow> fault \<Rightarrow> fault \<Rightarrow> error + jvalue list \<Rightarrow> fault \<Rightarrow> kg_world \<Rightarrow>
   string outcome \<times> kg_world" where
  "TryFindKGEntity now query fGet fService reply fSet w =
     (case getKGMemcache now query fGet w of
        Some resultFromMemcache \<Rightarrow> (Return resultFromMemcache, w)
      | None \<Rightarrow>
          (case tryFindKGEntityInternal query fService reply w of
             (Panic, w') \<Rightarrow> (Panic, w')
           | (Return (result, Some err), w') \<Rightarrow>
               (Return [],
                w'\<lparr>kg_events := kg_events w' @ [KGLogLine Warning ''tryFindKGEntityInternal: %v'']\<rparr>)
           | (Return (result, None), w') \<Rightarrow>
               (Return result, setKGMemcache now query result fSet w')))"

section \<open>Example states\<close>

text \<open>A store with one record, used to evaluate the functions on concrete inputs.\<close>

definition example_record :: Inventory where
  "example_record = new_Inventory\<lparr>FileID := ''a'', Creator := 7, UsageCount := 3\<rparr>"

definition example_world :: world where
  "example_world =
     \<lparr>committed = [(inventoryKey ''a'', example_record)], history = [], open_txn = None,
      events = []\<rparr>"

text \<open>A store with two records: \<open>a\<close> has been used 3 times, \<open>b\<close> 9 times.\<close>

definition example_world2 :: world where
  "example_world2 =
     \<lparr>committed = [(inventoryKey ''a'', example_record),
                   (inventoryKey ''b'', example_record\<lparr>FileID := ''b'', UsageCount := 9\<rparr>)],
      history = [], open_txn = None, events = []\<rparr>"

text \<open>
  A store with three records; \<open>b\<close> and \<open>c\<close> hold the same digest. \<open>example_digest\<close>
  stands in for \<open>md5.Sum\<close> where a concrete function is needed.
\<close>

definition example_digest :: "bytes \<Rightarrow> bytes" where
  "example_digest b = [word_of_nat (length b)]"

definition example_file :: File where
  "example_file = \<lparr>tg_FileID = ''x'', tg_FileSize = 5\<rparr>"

definition example_world3 :: world where
  "example_world3 =
     \<lparr>committed = [(inventoryKey ''a'', example_record\<lparr>MD5Sum := [0], FileSize := 5\<rparr>),
                   (inventoryKey ''b'', example_record\<lparr>FileID := ''b'', MD5Sum := [1], FileSize := 6\<rparr>),
                   (inventoryKey ''c'', example_record\<lparr>FileID := ''c'', MD5Sum := [1], FileSize := 7\<rparr>)],
      history = [], open_txn = None, events = []\<rparr>"

text \<open>
  The number of searches sent to the Knowledge Graph service so far, and a world with
  an empty cache.
\<close>

fun is_search :: "kg_event \<Rightarrow> bool" where
  "is_search (KGSearchCall query languages types n) = True"
| "is_search (KGLogLine s m) = False"

definition backend_calls :: "kg_world \<Rightarrow> nat" where
  "backend_calls w = length (filter is_search (kg_events w))"

definition example_kg_world :: kg_world where
  "example_kg_world = \<lparr>memcache = [], kg_events = []\<rparr>"

text \<open>A search reply with one entity, whose identifier is \<open>kg:/m/0abc\<close>.\<close>

definition example_reply :: "jvalue list" where
  "example_reply = [JMap [(''result'', JMap [(''@id'', JString ''kg:/m/0abc'')])]]"

text \<open>A store with 50 records, named \<open>0\<close> to \<open>49\<close>.\<close>

definition page_world :: world where
  "page_world =
     \<lparr>committed = map (\<lambda>n. (inventoryKey (decimal n), example_record\<lparr>FileID := decimal n\<rparr>)) [0..<50],
      history = [], open_txn = None, events = []\<rparr>"

section \<open>The datastore operations, unfolded\<close>

lemmas ds_defs = nds_Get_def nds_Put_def nds_Delete_def in_txn_def touch_def lookup_def load_def
  write_store_def commit_def rollback_def RunInTransaction_def

lemma inventoryKey_eq [simp]: "inventoryKey a = inventoryKey b \<longleftrightarrow> a = b"
  by (simp add: inventoryKey_def)

lemma GetInventory_eq:
  "GetInventory fileID None w =
     ((case map_of (committed w) (inventoryKey fileID) of
         None \<Rightarrow> (new_Inventory, Some ErrNoSuchEntity) | Some r \<Rightarrow> (r, None)), w)"
  by (simp add: GetInventory_def nds_Get_def load_def lookup_def split: option.splits)

section \<open>Properties of ReplaceFileID\<close>

lemma ReplaceFileID_found:
  assumes "map_of (committed w) (inventoryKey oldID) = Some r"
  shows "ReplaceFileID oldID newID fBegin fGet fDelete fPut fCommit w =
    (if fBegin = None \<and> fGet = None \<and> fDelete = None \<and> fPut = None \<and> fCommit = None
     then ((r\<lparr>FileID := newID\<rparr>, None),
           w\<lparr>committed := AList.update (inventoryKey newID) (r\<lparr>FileID := newID\<rparr>)
                              (AList.delete (inventoryKey oldID) (committed w)),
             history := history w @ [AList.update (inventoryKey newID) (r\<lparr>FileID := newID\<rparr>)
                              (AList.delete (inventoryKey oldID) (committed w))],
             open_txn := None\<rparr>)
     else ((if fBegin = None \<and> fGet = None then r\<lparr>FileID := newID\<rparr> else new_Inventory,
            Some (ErrService (the (if fBegin \<noteq> None then fBegin else if fGet \<noteq> None then fGet
                 else if fDelete \<noteq> None then fDelete else if fPut \<noteq> None then fPut else fCommit)))),
           if fBegin = None then w\<lparr>open_txn := None\<rparr> else w))"
  using assms
  by (auto simp: ReplaceFileID_def ReplaceFileID_body_def ds_defs inventoryKey_def split: option.splits)

lemma ReplaceFileID_missing:
  assumes "map_of (committed w) (inventoryKey oldID) = None"
  shows "ReplaceFileID oldID newID fBegin fGet fDelete fPut fCommit w =
    ((new_Inventory,
      Some (case fBegin of Some m \<Rightarrow> ErrService m | None \<Rightarrow>
              (case fGet of Some m \<Rightarrow> ErrService m | None \<Rightarrow> ErrNoSuchEntity))),
     if fBegin = None then w\<lparr>open_txn := None\<rparr> else w)"
  using assms
  by (auto simp: ReplaceFileID_def ReplaceFileID_body_def ds_defs inventoryKey_def split: option.splits)

text \<open>
  C1 (as amended). Let \<open>ReplaceFileID oldID newID\<close> return \<open>(i, err)\<close> and leave the world
  \<open>w'\<close>, whatever service failures strike. If a record \<open>r\<close> is stored at \<open>oldID\<close> and no
  service failure strikes, the call succeeds and returns \<open>r\<close> with \<open>FileID = newID\<close>; the
  store is the old one with the key of \<open>oldID\<close> deleted and that record put at \<open>newID\<close>,
  reached in one step (the history grows by exactly this state); afterwards
  \<open>GetInventory newID\<close> returns the record, and \<open>GetInventory oldID\<close> returns
  \<open>ErrNoSuchEntity\<close> when \<open>oldID \<noteq> newID\<close> and the record when \<open>oldID = newID\<close>. If a
  service failure strikes, the call returns an error and store and history are
  unchanged. If no record is stored at \<open>oldID\<close>, the call returns an error, which is
  \<open>ErrNoSuchEntity\<close> unless beginning the transaction or the read fails, and store and
  history are unchanged. No path writes a log line or calls another service.
\<close>

theorem ReplaceFileID_atomic:
  "case ReplaceFileID oldID newID fBegin fGet fDelete fPut fCommit w of
     ((i, err), w') \<Rightarrow>
       events w' = events w \<and>
       (case map_of (committed w) (inventoryKey oldID) of
          Some r \<Rightarrow>
            (if fBegin = None \<and> fGet = None \<and> fDelete = None \<and> fPut = None \<and> fCommit = None
             then err = None \<and> i = r\<lparr>FileID := newID\<rparr> \<and>
                  committed w' = AList.update (inventoryKey newID) i
                                   (AList.delete (inventoryKey oldID) (committed w)) \<and>
                  history w' = history w @ [committed w'] \<and>
                  fst (GetInventory newID None w') = (i, None) \<and>
                  fst (GetInventory oldID None w') =
                    (if oldID = newID then (i, None) else (new_Inventory, Some ErrNoSuchEntity))
             else err \<noteq> None \<and> committed w' = committed w \<and> history w' = history w)
        | None \<Rightarrow>
            err = Some (case fBegin of Some m \<Rightarrow> ErrService m
                        | None \<Rightarrow> (case fGet of Some m \<Rightarrow> ErrService m | None \<Rightarrow> ErrNoSuchEntity)) \<and>
            committed w' = committed w \<and> history w' = history w)"
proof (cases "map_of (committed w) (inventoryKey oldID)")
  case None
  show ?thesis
    unfolding ReplaceFileID_missing [OF None] by (simp add: None)
next
  case (Some r)
  show ?thesis
  proof (cases "fBegin = None \<and> fGet = None \<and> fDelete = None \<and> fPut = None \<and> fCommit = None")
    case True
    then show ?thesis
      unfolding ReplaceFileID_found [OF Some]
      by (simp add: Some GetInventory_eq update_conv' delete_conv')
  next
    case False
    then show ?thesis
      unfolding ReplaceFileID_found [OF Some] by (auto simp: Some)
  qed
qed

text \<open>The theorem at a concrete input: the record at \<open>a\<close> is renamed to \<open>b\<close>.\<close>

theorem ReplaceFileID_atomic_witness:
  "ReplaceFileID ''a'' ''b'' None None None None None example_world =
     ((example_record\<lparr>FileID := ''b''\<rparr>, None),
      example_world\<lparr>committed := [(inventoryKey ''b'', example_record\<lparr>FileID := ''b''\<rparr>)],
                     history := [[(inventoryKey ''b'', example_record\<lparr>FileID := ''b''\<rparr>)]]\<rparr>) \<and>
   fst (GetInventory ''b'' None
          (snd (ReplaceFileID ''a'' ''b'' None None None None None example_world))) =
     (example_record\<lparr>FileID := ''b''\<rparr>, None) \<and>
   fst (GetInventory ''a'' None
          (snd (ReplaceFileID ''a'' ''b'' None None None None None example_world))) =
     (new_Inventory, Some ErrNoSuchEntity)"
proof -
  have h: "ReplaceFileID ''a'' ''b'' None None None None None example_world =
     ((example_record\<lparr>FileID := ''b''\<rparr>, None),
      example_world\<lparr>committed := [(inventoryKey ''b'', example_record\<lparr>FileID := ''b''\<rparr>)],
                     history := [[(inventoryKey ''b'', example_record\<lparr>FileID := ''b''\<rparr>)]]\<rparr>)"
    by (simp add: ReplaceFileID_def ReplaceFileID_body_def ds_defs inventoryKey_def
        example_world_def AList.delete_eq)
  have m: "map_of (committed example_world) (inventoryKey ''a'') = Some example_record"
    by (simp add: example_world_def)
  from ReplaceFileID_atomic [where oldID = "''a''" and newID = "''b''" and fBegin = None
      and fGet = None and fDelete = None and fPut = None and fCommit = None and w = example_world]
  show ?thesis
    unfolding h m by (simp add: example_world_def AList.delete_eq)
qed

text \<open>
  The claim as stated fails in two ways. When both identifiers are the same, the call
  succeeds and the record is still found at \<open>oldID\<close>. When a record is already stored
  at \<open>newID\<close> and the commit fails, the call exits with the error and both keys are
  present.
\<close>

theorem ReplaceFileID_same_id_counterexample:
  "snd (fst (ReplaceFileID ''a'' ''a'' None None None None None example_world)) = None \<and>
   fst (GetInventory ''a'' None
          (snd (ReplaceFileID ''a'' ''a'' None None None None None example_world))) =
     (example_record\<lparr>FileID := ''a''\<rparr>, None) \<and>
   snd (fst (ReplaceFileID ''a'' ''b'' None None None None (Some ''unavailable'') example_world2)) =
     Some (ErrService ''unavailable'') \<and>
   snd (fst (GetInventory ''a'' None
          (snd (ReplaceFileID ''a'' ''b'' None None None None (Some ''unavailable'')
             example_world2)))) = None \<and>
   snd (fst (GetInventory ''b'' None
          (snd (ReplaceFileID ''a'' ''b'' None None None None (Some ''unavailable'')
             example_world2)))) = None"
  by (simp add: ReplaceFileID_def ReplaceFileID_body_def ds_defs
      example_world_def example_world2_def GetInventory_def AList.delete_eq)

section \<open>Properties of IncrementUsageCounter\<close>

lemma IncrementUsageCounter_found:
  assumes "map_of (committed w) (inventoryKey fileID) = Some r"
  shows "IncrementUsageCounter fileID now fBegin fGet fPut fCommit w =
    (if fBegin = None \<and> fGet = None \<and> fPut = None \<and> fCommit = None
     then (None,
           w\<lparr>committed := AList.update (inventoryKey fileID)
                              (r\<lparr>UsageCount := UsageCount r + 1, LastUsed := now\<rparr>) (committed w),
             history := history w @ [AList.update (inventoryKey fileID)
                              (r\<lparr>UsageCount := UsageCount r + 1, LastUsed := now\<rparr>) (committed w)],
             open_txn := None\<rparr>)
     else (Some (ErrService (the (if fBegin \<noteq> None then fBegin else if fGet \<noteq> None then fGet
                 else if fPut \<noteq> None then fPut else fCommit))),
           if fBegin = None then w\<lparr>open_txn := None\<rparr> else w))"
  using assms
  by (auto simp: IncrementUsageCounter_def IncrementUsageCounter_body_def ds_defs split: option.splits)

lemma IncrementUsageCounter_missing:
  assumes "map_of (committed w) (inventoryKey fileID) = None"
  shows "IncrementUsageCounter fileID now fBegin fGet fPut fCommit w =
    (case fBegin of Some m \<Rightarrow> (Some (ErrService m), w)
     | None \<Rightarrow> (case fGet of Some m \<Rightarrow> (Some (ErrService m), w\<lparr>open_txn := None\<rparr>)
        | None \<Rightarrow> (map_option ErrService fCommit, w\<lparr>open_txn := None\<rparr>)))"
  using assms
  by (auto simp: IncrementUsageCounter_def IncrementUsageCounter_body_def ds_defs split: option.splits)

text \<open>
  C8. Let \<open>IncrementUsageCounter fileID\<close>, run at the time \<open>now\<close>, return \<open>err\<close> and leave
  the world \<open>w'\<close>. If no record is stored at \<open>fileID\<close>, store and history are unchanged
  on every path (no record is created), and the call returns success whenever no
  service failure strikes. If a record \<open>r\<close> is stored and no service failure strikes,
  the call succeeds and the store is the old one with \<open>r\<close> replaced, in one step, by
  \<open>r\<close> with \<open>UsageCount\<close> one higher (64-bit addition) and \<open>LastUsed = now\<close>, every
  other field of \<open>r\<close> as it was; if a service failure strikes, the call returns an
  error and store and history are unchanged.
\<close>

theorem IncrementUsageCounter_spec:
  "case IncrementUsageCounter fileID now fBegin fGet fPut fCommit w of
     (err, w') \<Rightarrow>
       events w' = events w \<and>
       (case map_of (committed w) (inventoryKey fileID) of
          None \<Rightarrow>
            committed w' = committed w \<and> history w' = history w \<and>
            (if fBegin = None \<and> fGet = None \<and> fCommit = None then err = None else err \<noteq> None)
        | Some r \<Rightarrow>
            (if fBegin = None \<and> fGet = None \<and> fPut = None \<and> fCommit = None
             then err = None \<and>
                  committed w' = AList.update (inventoryKey fileID)
                      (r\<lparr>UsageCount := UsageCount r + 1, LastUsed := now\<rparr>) (committed w) \<and>
                  history w' = history w @ [committed w'] \<and>
                  fst (GetInventory fileID None w') =
                    (r\<lparr>UsageCount := UsageCount r + 1, LastUsed := now\<rparr>, None)
             else err \<noteq> None \<and> committed w' = committed w \<and> history w' = history w))"
proof (cases "map_of (committed w) (inventoryKey fileID)")
  case None
  show ?thesis
    unfolding IncrementUsageCounter_missing [OF None] by (auto simp: None split: option.splits)
next
  case (Some r)
  show ?thesis
  proof (cases "fBegin = None \<and> fGet = None \<and> fPut = None \<and> fCommit = None")
    case True
    then show ?thesis
      unfolding IncrementUsageCounter_found [OF Some]
      by (simp add: Some GetInventory_eq update_conv')
  next
    case False
    then show ?thesis
      unfolding IncrementUsageCounter_found [OF Some] by (auto simp: Some)
  qed
qed

text \<open>
  The theorem at concrete inputs: the usage count of the record at \<open>a\<close> goes from 3 to
  4, and a call for the unknown identifier \<open>b\<close> succeeds and changes nothing.
\<close>

theorem IncrementUsageCounter_spec_witness:
  "IncrementUsageCounter ''a'' 1000 None None None None example_world =
     (None,
      example_world\<lparr>committed :=
          [(inventoryKey ''a'', example_record\<lparr>UsageCount := 4, LastUsed := 1000\<rparr>)],
        history := [[(inventoryKey ''a'', example_record\<lparr>UsageCount := 4, LastUsed := 1000\<rparr>)]]\<rparr>) \<and>
   IncrementUsageCounter ''b'' 1000 None None None None example_world = (None, example_world)"
proof -
  have m: "map_of (committed example_world) (inventoryKey ''a'') = Some example_record"
          "map_of (committed example_world) (inventoryKey ''b'') = None"
    by (simp_all add: example_world_def)
  from IncrementUsageCounter_spec [where fileID = "''a''" and now = 1000 and fBegin = None
      and fGet = None and fPut = None and fCommit = None and w = example_world]
    IncrementUsageCounter_spec [where fileID = "''b''" and now = 1000 and fBegin = None
      and fGet = None and fPut = None and fCommit = None and w = example_world]
  show ?thesis
    by (simp add: m IncrementUsageCounter_found IncrementUsageCounter_missing
        example_world_def example_record_def)
qed

section \<open>Properties of strconv\<close>

lemma ParseUint_loop_append:
  "ParseUint_loop a (xs @ ys) =
     (case ParseUint_loop a xs of (m, None) \<Rightarrow> ParseUint_loop m ys | (m, Some e) \<Rightarrow> (m, Some e))"
  by (induction xs arbitrary: a) auto

lemma digit_char [simp]:
  "d < 10 \<Longrightarrow> is_digit (char_of (48 + d))" "d < 10 \<Longrightarrow> digit_of (char_of (48 + d)) = d"
  by (simp_all add: is_digit_def digit_of_def)

lemma ParseUint_loop_decimal:
  "n < 2 ^ 64 \<Longrightarrow> ParseUint_loop 0 (decimal n) = (n, None)"
proof (induction n rule: decimal.induct)
  case (1 n)
  show ?case
  proof (cases "n < 10")
    case True
    then show ?thesis by (subst decimal.simps) simp
  next
    case False
    from "1.prems" have lt: "n div 10 < 2 ^ 64" by simp
    have ih: "ParseUint_loop 0 (decimal (n div 10)) = (n div 10, None)"
      using "1.IH" [OF False lt] .
    have c: "\<not> (2 ^ 64 - 1) div 10 + 1 \<le> n div 10" using "1.prems" by simp
    have d: "\<not> 2 ^ 64 - 1 < n div 10 * 10 + n mod 10" using "1.prems" by simp
    show ?thesis
      using False c d
      by (subst decimal.simps) (simp add: ParseUint_loop_append ih)
  qed
qed

lemma decimal_not_Nil [simp]: "decimal n \<noteq> []"
  by (subst decimal.simps) simp

lemma hd_decimal_digit: "is_digit (hd (decimal n))"
proof (induction n rule: decimal.induct)
  case (1 n)
  show ?case
  proof (cases "n < 10")
    case True
    then show ?thesis by (subst decimal.simps) simp
  next
    case False
    then show ?thesis using "1.IH" by (subst decimal.simps) simp
  qed
qed

lemma hd_decimal_no_sign [simp]: "hd (decimal n) \<noteq> CHR ''+''" "hd (decimal n) \<noteq> CHR ''-''"
  using hd_decimal_digit [of n] by (auto simp: is_digit_def)

lemma Itoa_not_Nil: "Itoa i \<noteq> []"
  by (simp add: Itoa_def)

lemma Atoi_Itoa: "Atoi (Itoa i) = (i, None)"
proof (cases "sint i < 0")
  case False
  then have n: "nat (sint i) < 2 ^ 63" using sint_lt [of i] by simp
  then have n': "nat (sint i) < 2 ^ 64" by simp
  have w: "word_of_nat (nat (sint i)) = i" using False by simp
  show ?thesis
    using False n
    by (simp add: Atoi_def Itoa_def ParseInt_def ParseUint_def ParseUint_loop_decimal [OF n'] w)
next
  case True
  then have n: "nat (- sint i) \<le> 2 ^ 63" using sint_ge [of i] by simp
  then have n': "nat (- sint i) < 2 ^ 64" by simp
  have w: "- word_of_nat (nat (- sint i)) = i" using True by simp
  show ?thesis
    using True n
    by (simp add: Atoi_def Itoa_def ParseInt_def ParseUint_def ParseUint_loop_decimal [OF n'] w)
qed


lemma ParseUint_loop_err:
  "ParseUint_loop a s = (m, Some e) \<Longrightarrow> (e = ErrSyntax \<and> m = 0) \<or> (e = ErrRange \<and> m = 2 ^ 64 - 1)"
  by (induction a s rule: ParseUint_loop.induct) (auto split: if_splits)

lemma ParseInt_cases:
  "ParseInt s = (n, e) \<Longrightarrow>
     e = None \<or> (e = Some ErrSyntax \<and> n = 0) \<or>
     (e = Some ErrRange \<and> (n = word_of_nat (2 ^ 63 - 1) \<or> n = word_of_nat (2 ^ 63)))"
  by (auto simp: ParseInt_def ParseUint_def Let_def split: if_splits prod.splits option.splits error.splits
      dest: ParseUint_loop_err)

section \<open>Properties of FindInventories\<close>

lemma sint_bounds [simp]:
  "sint (word_of_nat (2 ^ 63 - 1) :: go_int) = 2 ^ 63 - 1"
  "sint (word_of_nat (2 ^ 63) :: go_int) = - (2 ^ 63)"
  by simp_all

lemma fold_Filter_eq_fields [simp]:
  "q_err (fold (\<lambda>p. Filter_eq name (f p)) ps q) = q_err q"
  "q_limit (fold (\<lambda>p. Filter_eq name (f p)) ps q) = q_limit q"
  "q_offset (fold (\<lambda>p. Filter_eq name (f p)) ps q) = q_offset q"
  "q_order (fold (\<lambda>p. Filter_eq name (f p)) ps q) = q_order q"
  "q_kind (fold (\<lambda>p. Filter_eq name (f p)) ps q) = q_kind q"
  by (induction ps arbitrary: q) (simp_all add: Filter_eq_def)

lemma sint_maxItems [simp]: "sint (word_of_nat maxItems :: go_int) = 50"
  by (simp add: maxItems_def)

lemma FindInventories_query_fields:
  "FindInventories_query ps cursor = (q, offset) \<Longrightarrow>
     offset = fst (Atoi cursor) \<and> q_offset q = 0 \<and> q_limit q = 50 \<and>
     (q_err q = None \<longrightarrow> snd (Atoi cursor) = None \<or> offset = 0)"
  using ParseInt_cases [of cursor "fst (Atoi cursor)" "snd (Atoi cursor)"]
  by (auto simp: FindInventories_query_def Let_def Atoi_def Limit_def Order_def Offset_def
      KeysOnly_def NewQuery_def split: prod.splits if_splits)

lemma collect_length: "collect rs = Inr xs \<Longrightarrow> length xs = length rs"
  by (induction rs arbitrary: xs rule: collect.induct) (auto split: sum.splits)

lemma length_run_query: "0 \<le> q_limit q \<Longrightarrow> length (run_query q s) \<le> nat (q_limit q)"
  by (simp add: run_query_def)

lemma Atoi_1: "Atoi ''1'' = (1, None)"
  by (simp add: Atoi_def ParseInt_def ParseUint_def is_digit_def digit_of_def)

lemma FindInventories_example:
  "FindInventories [] ''1'' None None example_world2 =
     ([example_record\<lparr>FileID := ''b'', UsageCount := 9\<rparr>, example_record], [], None)"
  by (simp add: FindInventories_def FindInventories_query_def Atoi_1 Let_def GetAll_def
      run_query_def matching_def order_results_def Limit_def Order_def KeysOnly_def NewQuery_def
      nds_GetMulti_def lookup_def example_world2_def inventoryKey_def example_record_def
      new_Inventory_def maxItems_def)

text \<open>
  C2 (the code departs from the claim). Whatever the cursor, the query that
  \<open>FindInventories\<close> builds has offset zero: \<open>Offset\<close> is called only when \<open>Atoi\<close> fails,
  and then with the value 0 (or with a bound that makes the query invalid). On the
  store with the two records \<open>b\<close> (used 9 times) and \<open>a\<close> (used 3 times), the cursor
  \<open>1\<close> parses as the number 1, and the call returns both records, \<open>b\<close> first, where a
  query with offset 1 would return \<open>a\<close> alone.
\<close>

theorem FindInventories_never_offsets:
  "q_offset (fst (FindInventories_query ps cursor)) = 0 \<and>
   Atoi ''1'' = (1, None) \<and>
   FindInventories [] ''1'' None None example_world2 =
     ([example_record\<lparr>FileID := ''b'', UsageCount := 9\<rparr>, example_record], [], None)"
  using FindInventories_query_fields [of ps cursor]
  by (cases "FindInventories_query ps cursor") (simp add: Atoi_1 FindInventories_example)

lemma set_run_query: "set (run_query q s) \<subseteq> set s"
proof -
  have "set (order_results os rs) = set rs" for os rs
    by (simp add: order_results_def)
  then have "set (drop n (order_results os (matching q s))) \<subseteq> set s" for n os
    using set_drop_subset [of n "order_results os (matching q s)"]
    by (auto simp: matching_def)
  then show ?thesis
    using set_take_subset [of "nat (q_limit q)" "drop (q_offset q) (order_results (q_order q) (matching q s))"]
    by (auto simp: run_query_def)
qed

lemma collect_all:
  "\<forall>k \<in> set ks. k \<in> fst ` set s \<Longrightarrow> \<exists>xs. collect (map (lookup s) ks) = Inr xs"
proof (induction ks)
  case Nil
  then show ?case by simp
next
  case (Cons k ks)
  then obtain xs where xs: "collect (map (lookup s) ks) = Inr xs" by auto
  from Cons.prems have "k \<in> fst ` set s" by simp
  then obtain v where "map_of s k = Some v"
    by (metis map_of_eq_None_iff not_Some_eq)
  then have "lookup s k = Inr v" by (simp add: lookup_def)
  with xs show ?case by simp
qed

lemma length_order_results [simp]: "length (order_results os rs) = length rs"
  by (simp add: order_results_def)

lemma FindInventories_full_page:
  assumes "snd (Atoi cursor) = None \<or> snd (Atoi cursor) = Some ErrSyntax"
    and "maxItems \<le> length (matching (fst (FindInventories_query ps cursor)) (committed w))"
  shows "\<exists>invs. FindInventories ps cursor None None w =
           (invs, Itoa (fst (Atoi cursor) + word_of_nat maxItems), None) \<and> length invs = maxItems"
proof -
  obtain q offset where q: "FindInventories_query ps cursor = (q, offset)"
    by (cases "FindInventories_query ps cursor")
  from assms(1) ParseInt_cases [of cursor "fst (Atoi cursor)" "snd (Atoi cursor)"]
  have z: "snd (Atoi cursor) = None \<or> fst (Atoi cursor) = 0"
    by (auto simp: Atoi_def)
  have e: "q_err q = None"
    using q z
    by (auto simp: FindInventories_query_def Let_def Limit_def Order_def Offset_def
        KeysOnly_def NewQuery_def split: prod.splits if_splits)
  note f = FindInventories_query_fields [OF q]
  let ?keys = "map fst (run_query q (committed w))"
  have g: "GetAll q None w = Inr ?keys" by (simp add: GetAll_def e)
  from f assms(2) q have len: "length ?keys = maxItems"
    by (simp add: run_query_def maxItems_def)
  have "\<forall>k \<in> set ?keys. k \<in> fst ` set (committed w)"
    using set_run_query [of q "committed w"] by auto
  from collect_all [OF this] obtain invs where
    c: "collect (map (lookup (committed w)) ?keys) = Inr invs" ..
  from collect_length [OF c] len have l: "length invs = maxItems" by simp
  from f g c len l show ?thesis
    by (simp add: FindInventories_def q nds_GetMulti_def maxItems_def)
qed

lemma Atoi_empty: "Atoi [] = (0, Some ErrSyntax)"
  by (simp add: Atoi_def ParseInt_def)

lemma page_world_full:
  "\<exists>invs. FindInventories [] [] None None page_world = (invs, ''50'', None) \<and> length invs = 50"
proof -
  have a: "snd (Atoi []) = None \<or> snd (Atoi []) = Some ErrSyntax" by (simp add: Atoi_empty)
  have m: "maxItems \<le> length (matching (fst (FindInventories_query [] [])) (committed page_world))"
    by (simp add: FindInventories_query_def Let_def Atoi_empty Limit_def Order_def Offset_def
        KeysOnly_def NewQuery_def matching_def page_world_def filter_map comp_def maxItems_def
        inventoryKey_def)
  have i: "Itoa 50 = ''50''"
    by code_simp
  from FindInventories_full_page [OF a m] show ?thesis
    by (simp add: Atoi_empty i maxItems_def)
qed

text \<open>
  C9. Let \<open>FindInventories\<close> return the page \<open>invs\<close>, the cursor \<open>newCursor\<close> and \<open>err\<close>.
  When it returns an error, page and cursor are empty. When it returns without error,
  the page holds at most 50 records; the cursor is the decimal text of the incoming
  offset plus 50 (in 64-bit arithmetic) when the page holds exactly 50 records, and the
  empty string otherwise. That text is never empty and \<open>Atoi\<close> reads it back as the
  same number. The incoming offset is the number \<open>Atoi\<close> returns for the incoming
  cursor, which is 0 whenever the cursor does not parse and the call returns without
  error.
\<close>

theorem FindInventories_cursor:
  "case FindInventories ps cursor fGetAll fGetMulti w of
     (invs, newCursor, err) \<Rightarrow>
       (case err of
          Some e \<Rightarrow> invs = [] \<and> newCursor = []
        | None \<Rightarrow>
            length invs \<le> maxItems \<and>
            newCursor =
              (if length invs = maxItems then Itoa (fst (Atoi cursor) + word_of_nat maxItems) else []) \<and>
            Itoa (fst (Atoi cursor) + word_of_nat maxItems) \<noteq> [] \<and>
            Atoi (Itoa (fst (Atoi cursor) + word_of_nat maxItems)) =
              (fst (Atoi cursor) + word_of_nat maxItems, None) \<and>
            (snd (Atoi cursor) = None \<or> fst (Atoi cursor) = 0))"
proof -
  obtain q offset where q: "FindInventories_query ps cursor = (q, offset)"
    by (cases "FindInventories_query ps cursor")
  note f = FindInventories_query_fields [OF q]
  show ?thesis
  proof (cases "GetAll q fGetAll w")
    case (Inl e)
    then show ?thesis by (simp add: FindInventories_def q)
  next
    case (Inr keys)
    then have e: "q_err q = None" and k: "keys = map fst (run_query q (committed w))"
      by (auto simp: GetAll_def split: option.splits)
    from f have len: "length keys \<le> maxItems"
      using length_run_query [of q "committed w"] by (simp add: k maxItems_def)
    show ?thesis
    proof (cases "nds_GetMulti keys fGetMulti w")
      case (Inl e')
      with f e show ?thesis
        by (auto simp: FindInventories_def q Inr Itoa_not_Nil Atoi_Itoa maxItems_def)
    next
      case r: (Inr invs)
      then have "length invs = length keys"
        by (auto simp: nds_GetMulti_def split: option.splits dest: collect_length)
      with f e len show ?thesis
        by (auto simp: FindInventories_def q Inr r Itoa_not_Nil Atoi_Itoa maxItems_def)
    qed
  qed
qed

text \<open>
  The theorem at concrete inputs: a page of two records ends the results; on the store
  with 50 records the page is full and the cursor is \<open>50\<close>.
\<close>

theorem FindInventories_cursor_witness:
  "FindInventories [] ''1'' None None example_world2 =
     ([example_record\<lparr>FileID := ''b'', UsageCount := 9\<rparr>, example_record], [], None) \<and>
   (\<exists>invs. FindInventories [] [] None None page_world = (invs, ''50'', None) \<and> length invs = 50) \<and>
   Atoi (Itoa (0 + word_of_nat maxItems)) = (0 + word_of_nat maxItems, None)"
  using FindInventories_cursor [where ps = "[]" and cursor = "''1''" and fGetAll = None
      and fGetMulti = None and w = example_world2]
    FindInventories_cursor [where ps = "[]" and cursor = "[]" and fGetAll = None
      and fGetMulti = None and w = page_world]
    page_world_full
  by (simp add: FindInventories_example Atoi_1 Atoi_empty Atoi_Itoa maxItems_def)

section \<open>Properties of UpdateFileMetadata\<close>

lemma UpdateFileMetadata_missing:
  assumes "map_of (committed w) (inventoryKey oldID) = None"
  shows "UpdateFileMetadata oldID md5_Sum (file, bs, None) True fStore None None fDelete fPut None w =
     (None, w\<lparr>events := events w @ FetchFileInfoCall oldID #
          (if tg_FileID file \<noteq> oldID then [LogLine Info ''Detected FileID change %s -> %s''] else []) @
          [LogLine Info ''File %s: %x (%d bytes)''], open_txn := None\<rparr>)"
  using assms
  by (simp add: UpdateFileMetadata_def UpdateFileMetadata_body_def ds_defs emit_def)

text \<open>
  C3 (the code departs from the claim). The store holds one record, at \<open>a\<close>, and the
  media source reports the identifier \<open>b\<close> for it. The closure calls \<open>Get\<close>, \<open>Delete\<close>
  and \<open>Put\<close> with the context of the enclosing function, so each takes effect at once.
  When the \<open>Put\<close> fails, the call returns the error and the store is empty: the record
  is gone from \<open>a\<close> and was never put at \<open>b\<close>. When nothing fails, the store passes
  through that same empty state before the record appears at \<open>b\<close>.
\<close>

theorem UpdateFileMetadata_not_atomic:
  "UpdateFileMetadata ''a'' md5_Sum (\<lparr>tg_FileID = ''b'', tg_FileSize = 5\<rparr>, bs, None) True
      None None None None (Some ''unavailable'') None example_world =
     (Some (ErrService ''unavailable''),
      example_world\<lparr>committed := [], history := [[]],
        events := [FetchFileInfoCall ''a'', LogLine Info ''Detected FileID change %s -> %s'',
                   LogLine Info ''File %s: %x (%d bytes)'']\<rparr>) \<and>
   history (snd (UpdateFileMetadata ''a'' md5_Sum (\<lparr>tg_FileID = ''b'', tg_FileSize = 5\<rparr>, bs, None) True
      None None None None None None example_world)) =
     [[], [(inventoryKey ''b'',
            example_record\<lparr>FileID := ''b'', MD5Sum := md5_Sum bs, FileSize := 5\<rparr>)]]"
  by (simp add: UpdateFileMetadata_def UpdateFileMetadata_body_def ds_defs emit_def
      example_world_def AList.delete_eq)

section \<open>Properties of CreateInventory\<close>

text \<open>
  C4. Let \<open>CreateInventory fileID personality userID\<close>, run at the time \<open>now\<close>, return the
  record \<open>res\<close> and \<open>err\<close> and leave the world \<open>w'\<close>. When the read fails, the error is
  returned and nothing changes. When a record \<open>r\<close> is stored at \<open>fileID\<close> and the user is
  neither an administrator nor the creator of \<open>r\<close>, the call returns no record and
  \<open>ErrorOnlyAdminCanUpdateInventory\<close>, and the world is exactly as before. When the
  user is an administrator or the creator, or when no record is stored, the call
  returns the stored record (the zero record when there is none) with \<open>FileID\<close>,
  \<open>FileType\<close>, \<open>Personality\<close> and \<open>LastUsed\<close> set and with \<open>Creator\<close> set to the user only
  if it was 0, and writes it under the key of \<open>fileID\<close> (when the write fails, its error
  is returned and the store is unchanged).
\<close>

theorem CreateInventory_spec:
  "case CreateInventory fileID personality userID config FileTypeMPEG4GIF now fGet fPut w of
     ((res, err), w') \<Rightarrow>
       (case fGet of
          Some m \<Rightarrow> res = None \<and> err = Some (ErrService m) \<and> w' = w
        | None \<Rightarrow>
            (case map_of (committed w) (inventoryKey fileID) of
               Some r \<Rightarrow>
                 (if IsAdmin config userID \<or> Creator r = userID
                  then res = Some (r\<lparr>FileID := fileID, FileType := FileTypeMPEG4GIF,
                                     Personality := personality, LastUsed := now,
                                     Creator := (if Creator r = 0 then userID else Creator r)\<rparr>) \<and>
                       (case fPut of
                          Some m \<Rightarrow> err = Some (ErrService m) \<and> w' = w
                        | None \<Rightarrow>
                            err = None \<and>
                            w' = write_store
                                   (AList.update (inventoryKey fileID)
                                      (r\<lparr>FileID := fileID, FileType := FileTypeMPEG4GIF,
                                         Personality := personality, LastUsed := now,
                                         Creator := (if Creator r = 0 then userID else Creator r)\<rparr>)
                                      (committed w)) w)
                  else res = None \<and> err = Some ErrorOnlyAdminCanUpdateInventory \<and> w' = w)
             | None \<Rightarrow>
                 res = Some (new_Inventory\<lparr>FileID := fileID, FileType := FileTypeMPEG4GIF,
                                Personality := personality, LastUsed := now, Creator := userID\<rparr>) \<and>
                 (case fPut of
                    Some m \<Rightarrow> err = Some (ErrService m) \<and> w' = w
                  | None \<Rightarrow>
                      err = None \<and>
                      w' = write_store
                             (AList.update (inventoryKey fileID)
                                (new_Inventory\<lparr>FileID := fileID, FileType := FileTypeMPEG4GIF,
                                   Personality := personality, LastUsed := now, Creator := userID\<rparr>)
                                (committed w)) w)))"
  by (auto simp: CreateInventory_def nds_Get_def nds_Put_def load_def lookup_def Let_def
      new_Inventory_def split: option.splits)

text \<open>
  The theorem at concrete inputs: the record at \<open>a\<close> was created by user 7 and user 1
  is the administrator. User 8 is refused and nothing changes; user 7 updates the
  record.
\<close>

theorem CreateInventory_spec_witness:
  "CreateInventory ''a'' [] 8 \<lparr>IsAdmin = (\<lambda>u. u = 1)\<rparr> ''gif'' 1000 None None example_world =
     ((None, Some ErrorOnlyAdminCanUpdateInventory), example_world) \<and>
   CreateInventory ''a'' [] 7 \<lparr>IsAdmin = (\<lambda>u. u = 1)\<rparr> ''gif'' 1000 None None example_world =
     ((Some (example_record\<lparr>FileType := ''gif'', LastUsed := 1000\<rparr>), None),
      example_world\<lparr>committed :=
          [(inventoryKey ''a'', example_record\<lparr>FileType := ''gif'', LastUsed := 1000\<rparr>)],
        history := [[(inventoryKey ''a'', example_record\<lparr>FileType := ''gif'', LastUsed := 1000\<rparr>)]]\<rparr>)"
proof -
  have m: "map_of (committed example_world) (inventoryKey ''a'') = Some example_record"
    by (simp add: example_world_def)
  from CreateInventory_spec [where fileID = "''a''" and personality = "[]" and userID = 8
      and config = "\<lparr>IsAdmin = (\<lambda>u. u = 1)\<rparr>" and FileTypeMPEG4GIF = "''gif''" and now = 1000
      and fGet = None and fPut = None and w = example_world]
    CreateInventory_spec [where fileID = "''a''" and personality = "[]" and userID = 7
      and config = "\<lparr>IsAdmin = (\<lambda>u. u = 1)\<rparr>" and FileTypeMPEG4GIF = "''gif''" and now = 1000
      and fGet = None and fPut = None and w = example_world]
  show ?thesis
    by (simp add: m CreateInventory_def nds_Get_def nds_Put_def load_def lookup_def Let_def
        write_store_def example_world_def example_record_def new_Inventory_def)
qed

section \<open>Properties of GetInventoryByFile\<close>

lemma emit_fields [simp]:
  "committed (emit ev w) = committed w" "events (emit ev w) = events w @ [ev]"
  "history (emit ev w) = history w" "open_txn (emit ev w) = open_txn w"
  by (simp_all add: emit_def)

lemma Count_FileSize:
  "Count (Filter_eq ''FileSize'' (VInt n) (NewQuery inventoryEntityKind)) None w =
     Inr (length (filter (\<lambda>ke. Kind (fst ke) = inventoryEntityKind \<and> FileSize (snd ke) = n)
                    (committed w)))"
  by (simp add: Count_def Filter_eq_def NewQuery_def run_query_def matching_def order_results_def
      prop_matches_def eq_commute)

lemma GetAll_MD5Sum:
  "GetAll (KeysOnly (Filter_eq ''MD5Sum'' (VBytes h) (NewQuery inventoryEntityKind))) None w =
     Inr (map fst (filter (\<lambda>ke. Kind (fst ke) = inventoryEntityKind \<and> MD5Sum (snd ke) = h)
                     (committed w)))"
  by (simp add: GetAll_def KeysOnly_def Filter_eq_def NewQuery_def run_query_def matching_def
      order_results_def prop_matches_def eq_commute)

lemma unique_match_lookup:
  assumes "distinct (map fst s)" and "filter P s = [ke]"
  shows "map_of s (fst ke) = Some (snd ke)"
proof -
  from assms(2) have "ke \<in> set (filter P s)" by simp
  then have "(fst ke, snd ke) \<in> set s" by simp
  with assms(1) show ?thesis by (rule map_of_is_SomeI)
qed

lemma GetInventoryByFile_no_candidate:
  assumes "filter (\<lambda>ke. Kind (fst ke) = inventoryEntityKind \<and> FileSize (snd ke) = fileSize)
             (committed w) = []"
  shows "GetInventoryByFile fileID fileSize md5_Sum None fetched fGetAll fGet w = ((None, None), w)"
  using assms by (simp add: GetInventoryByFile_def Count_FileSize)

lemma GetInventoryByFile_by_digest:
  assumes "filter (\<lambda>ke. Kind (fst ke) = inventoryEntityKind \<and> FileSize (snd ke) = fileSize)
             (committed w) \<noteq> []"
    and "filter (\<lambda>ke. Kind (fst ke) = inventoryEntityKind \<and> MD5Sum (snd ke) = md5_Sum b)
             (committed w) = ms"
  shows "GetInventoryByFile fileID fileSize md5_Sum None (f, b, ferr) None fGet w =
     (if ms = [] then ((None, None), emit (FetchFileInfoCall fileID) w)
      else if 1 < length ms
      then ((None, None),
            emit (LogLine Critical ''Hash conflict (%x)!'') (emit (FetchFileInfoCall fileID) w))
      else (case nds_Get Background (fst (hd ms)) new_Inventory fGet
                   (emit (FetchFileInfoCall fileID) w) of
              ((i, err), w') \<Rightarrow> ((Some i, err), w')))"
proof -
  have g: "GetAll (KeysOnly (Filter_eq ''MD5Sum'' (VBytes (md5_Sum b)) (NewQuery inventoryEntityKind)))
             None (emit (FetchFileInfoCall fileID) w) = Inr (map fst ms)"
    by (simp add: GetAll_MD5Sum assms(2))
  from assms(1) show ?thesis
    by (simp add: GetInventoryByFile_def Count_FileSize g hd_map)
qed

lemma example_world3_distinct: "distinct (map fst (committed example_world3))"
  by (simp add: example_world3_def)

lemma Kind_inventoryKey [simp]: "Kind (inventoryKey x) = inventoryEntityKind"
  by (simp add: inventoryKey_def)

text \<open>
  C7. On a store whose keys are distinct, with the datastore calls going through, and
  whatever \<open>FetchFileInfo\<close> returns (\<open>b\<close> being the bytes): \<open>GetInventoryByFile\<close> returns no
  error and leaves the store as it is. When no record has the size \<open>fileSize\<close>, it
  returns no record and \<open>FetchFileInfo\<close> is not called. Otherwise \<open>FetchFileInfo\<close> is
  called once, and with the records whose digest equals \<open>md5_Sum b\<close>: when there is
  none, no record is returned; when there is exactly one, it is returned; when there
  are several, no record is returned and a line of severity \<open>Critical\<close> is logged.
\<close>

theorem GetInventoryByFile_spec:
  assumes "distinct (map fst (committed w))"
  shows
    "case GetInventoryByFile fileID fileSize md5_Sum None (f, b, ferr) None None w of
       ((res, err), w') \<Rightarrow>
         committed w' = committed w \<and> err = None \<and>
         (if filter (\<lambda>ke. Kind (fst ke) = inventoryEntityKind \<and> FileSize (snd ke) = fileSize)
               (committed w) = []
          then res = None \<and> events w' = events w
          else
            (case filter (\<lambda>ke. Kind (fst ke) = inventoryEntityKind \<and> MD5Sum (snd ke) = md5_Sum b)
                    (committed w) of
               [] \<Rightarrow> res = None \<and> events w' = events w @ [FetchFileInfoCall fileID]
             | [ke] \<Rightarrow> res = Some (snd ke) \<and> events w' = events w @ [FetchFileInfoCall fileID]
             | ke # ke' # kes \<Rightarrow>
                 res = None \<and>
                 events w' = events w @ [FetchFileInfoCall fileID,
                                         LogLine Critical ''Hash conflict (%x)!'']))"
proof (cases "filter (\<lambda>ke. Kind (fst ke) = inventoryEntityKind \<and> FileSize (snd ke) = fileSize)
               (committed w) = []")
  case True
  then show ?thesis
    by (simp add: GetInventoryByFile_no_candidate)
next
  case False
  let ?ms = "filter (\<lambda>ke. Kind (fst ke) = inventoryEntityKind \<and> MD5Sum (snd ke) = md5_Sum b)
                    (committed w)"
  note r = GetInventoryByFile_by_digest [OF False refl, where fileID = fileID and f = f
      and ferr = ferr and fGet = None]
  show ?thesis
  proof (cases ?ms)
    case Nil
    with False show ?thesis by (simp add: r)
  next
    case (Cons ke kes)
    note c1 = Cons
    show ?thesis
    proof (cases kes)
      case Nil
      with c1 have m: "?ms = [ke]" by simp
      from unique_match_lookup [OF assms m]
      have "map_of (committed w) (fst ke) = Some (snd ke)" .
      with False m show ?thesis
        by (simp add: r nds_Get_def load_def lookup_def)
    next
      case (Cons ke' kes')
      with c1 have m: "?ms = ke # ke' # kes'" by simp
      with False show ?thesis by (simp add: r)
    qed
  qed
qed

text \<open>
  The theorem at concrete inputs: no record of size 9; one record with the digest of
  the empty file; two records with the digest of a one-byte file.
\<close>

theorem GetInventoryByFile_spec_witness:
  "GetInventoryByFile ''x'' 9 example_digest None (example_file, [], None) None None
      example_world3 =
     ((None, None), example_world3) \<and>
   GetInventoryByFile ''x'' 5 example_digest None (example_file, [], None) None None
      example_world3 =
     ((Some (example_record\<lparr>MD5Sum := [0], FileSize := 5\<rparr>), None),
      example_world3\<lparr>events := [FetchFileInfoCall ''x'']\<rparr>) \<and>
   GetInventoryByFile ''x'' 5 example_digest None (example_file, [3], None) None None
      example_world3 =
     ((None, None),
      example_world3\<lparr>events := [FetchFileInfoCall ''x'', LogLine Critical ''Hash conflict (%x)!'']\<rparr>)"
  using GetInventoryByFile_spec [OF example_world3_distinct, where fileID = "''x''" and fileSize = 9
      and ?md5_Sum = example_digest and f = example_file and b = "[]" and ferr = None]
    GetInventoryByFile_spec [OF example_world3_distinct, where fileID = "''x''" and fileSize = 5
      and ?md5_Sum = example_digest and f = example_file and b = "[]" and ferr = None]
    GetInventoryByFile_spec [OF example_world3_distinct, where fileID = "''x''" and fileSize = 5
      and ?md5_Sum = example_digest and f = example_file and b = "[3]" and ferr = None]
  by (simp add: GetInventoryByFile_def Count_FileSize GetAll_MD5Sum nds_Get_def load_def lookup_def
      emit_def example_world3_def example_digest_def)

text \<open>
  C10. On a store whose keys are distinct and that holds a record of the size
  \<open>fileSize\<close>: the error that \<open>FetchFileInfo\<close> returns has no effect on what
  \<open>GetInventoryByFile\<close> does or returns; and when the fetch fails and returns no bytes
  (the datastore calls going through), \<open>FetchFileInfo\<close> has been called, no error is
  returned, and the record returned is the one whose digest is the digest of the
  empty byte sequence if there is exactly one such record, and none otherwise.
\<close>

theorem GetInventoryByFile_fetch_error:
  assumes "distinct (map fst (committed w))"
    and "filter (\<lambda>ke. Kind (fst ke) = inventoryEntityKind \<and> FileSize (snd ke) = fileSize)
               (committed w) \<noteq> []"
  shows
    "GetInventoryByFile fileID fileSize md5_Sum fCount (f, b, Some e) fGetAll fGet w =
       GetInventoryByFile fileID fileSize md5_Sum fCount (f, b, None) fGetAll fGet w \<and>
     (case GetInventoryByFile fileID fileSize md5_Sum None (f, [], Some e) None None w of
        ((res, err), w') \<Rightarrow>
          err = None \<and>
          res = (case filter (\<lambda>ke. Kind (fst ke) = inventoryEntityKind \<and> MD5Sum (snd ke) = md5_Sum [])
                        (committed w) of
                   [ke] \<Rightarrow> Some (snd ke)
                 | _ \<Rightarrow> None) \<and>
          FetchFileInfoCall fileID \<in> set (events w'))"
proof -
  let ?ms = "filter (\<lambda>ke. Kind (fst ke) = inventoryEntityKind \<and> MD5Sum (snd ke) = md5_Sum [])
                    (committed w)"
  have same: "GetInventoryByFile fileID fileSize md5_Sum fCount (f, b, Some e) fGetAll fGet w =
       GetInventoryByFile fileID fileSize md5_Sum fCount (f, b, None) fGetAll fGet w"
    by (simp add: GetInventoryByFile_def split: sum.splits)
  note r = GetInventoryByFile_by_digest [OF assms(2) refl, where ?md5_Sum = md5_Sum and b = "[]"
      and fileID = fileID and f = f and ferr = "Some e" and fGet = None]
  have "case GetInventoryByFile fileID fileSize md5_Sum None (f, [], Some e) None None w of
        ((res, err), w') \<Rightarrow>
          err = None \<and>
          res = (case ?ms of [ke] \<Rightarrow> Some (snd ke) | _ \<Rightarrow> None) \<and>
          FetchFileInfoCall fileID \<in> set (events w')"
  proof (cases ?ms)
    case Nil
    then show ?thesis by (simp add: r)
  next
    case (Cons ke kes)
    note c1 = Cons
    show ?thesis
    proof (cases kes)
      case Nil
      with c1 have m: "?ms = [ke]" by simp
      from unique_match_lookup [OF assms(1) m]
      have "map_of (committed w) (fst ke) = Some (snd ke)" .
      with m show ?thesis
        by (simp add: r nds_Get_def load_def lookup_def)
    next
      case (Cons ke' kes')
      with c1 have m: "?ms = ke # ke' # kes'" by simp
      then show ?thesis by (simp add: r)
    qed
  qed
  with same show ?thesis by simp
qed

text \<open>
  The theorem at a concrete input: the fetch fails, and the record whose digest is
  that of the empty file is returned without error.
\<close>

theorem GetInventoryByFile_fetch_error_witness:
  "GetInventoryByFile ''x'' 7 example_digest None
      (example_file, [], Some (ErrService ''down'')) None None example_world3 =
     ((Some (example_record\<lparr>MD5Sum := [0], FileSize := 5\<rparr>), None),
      example_world3\<lparr>events := [FetchFileInfoCall ''x'']\<rparr>)"
proof -
  have s: "filter (\<lambda>ke. Kind (fst ke) = inventoryEntityKind \<and> FileSize (snd ke) = 7)
               (committed example_world3) \<noteq> []"
    by (simp add: example_world3_def)
  from GetInventoryByFile_fetch_error [OF example_world3_distinct s, where fileID = "''x''"
      and ?md5_Sum = example_digest and f = example_file and e = "ErrService ''down''"]
  show ?thesis
    by (simp add: GetInventoryByFile_def Count_FileSize GetAll_MD5Sum nds_Get_def load_def lookup_def
      emit_def example_world3_def example_digest_def)
qed

section \<open>Properties of TryFindKGEntity\<close>

lemma TryFindKGEntity_hit:
  "getKGMemcache now query fGet w = Some v \<Longrightarrow>
   TryFindKGEntity now query fGet fService reply fSet w = (Return v, w)"
  by (simp add: TryFindKGEntity_def)

lemma tryFindKGEntityInternal_error:
  "fService \<noteq> None \<or> isl reply \<Longrightarrow>
   \<exists>e. tryFindKGEntityInternal query fService reply w =
     (Return ([], Some e),
      w\<lparr>kg_events := kg_events w @
         (if fService = None then [KGSearchCall query [''ja'', ''zh''] [''Person''] 1] else [])\<rparr>)"
  by (cases reply) (auto simp: tryFindKGEntityInternal_def sendKGEntityQuery_def split: option.splits)

lemma TryFindKGEntity_error:
  assumes "getKGMemcache now query fGet w = None" and "fService \<noteq> None \<or> isl reply"
  shows "TryFindKGEntity now query fGet fService reply fSet w =
     (Return [],
      w\<lparr>kg_events := kg_events w @
         (if fService = None then [KGSearchCall query [''ja'', ''zh''] [''Person''] 1] else []) @
         [KGLogLine Warning ''tryFindKGEntityInternal: %v'']\<rparr>)"
  using tryFindKGEntityInternal_error [OF assms(2), of query w] assms(1)
  by (auto simp: TryFindKGEntity_def)

lemma tryFindKGEntityInternal_world:
  "tryFindKGEntityInternal query None reply w = (out, w1) \<Longrightarrow>
   w1 = w\<lparr>kg_events := kg_events w @ [KGSearchCall query [''ja'', ''zh''] [''Person''] 1]\<rparr>"
  by (auto simp: tryFindKGEntityInternal_def sendKGEntityQuery_def
      split: option.splits sum.splits list.splits jvalue.splits prod.splits outcome.splits)

lemma tryFindKGEntityInternal_success:
  "tryFindKGEntityInternal query fService reply w = (Return (r, None), w1) \<Longrightarrow>
   fService = None \<and>
   w1 = w\<lparr>kg_events := kg_events w @ [KGSearchCall query [''ja'', ''zh''] [''Person''] 1]\<rparr>"
  by (auto simp: tryFindKGEntityInternal_def sendKGEntityQuery_def
      split: option.splits sum.splits list.splits jvalue.splits prod.splits outcome.splits)

lemma backend_calls_search [simp]:
  "backend_calls (w\<lparr>kg_events := kg_events w @ [KGSearchCall q ls ts n]\<rparr>) = backend_calls w + 1"
  by (simp add: backend_calls_def)

lemma getKGMemcache_after_set:
  "now2 < now + 4 * Hour \<Longrightarrow>
   getKGMemcache now2 query None (setKGMemcache now query r None w) = Some r"
  by (simp add: getKGMemcache_def setKGMemcache_def memcache_Get_def memcache_Set_def update_conv')

lemma getKGMemcache_absent:
  "map_of (memcache w) (getKGMemcacheKey query) = None \<Longrightarrow> getKGMemcache now query fGet w = None"
  by (simp add: getKGMemcache_def memcache_Get_def split: option.splits)


lemma getKGMemcache_later:
  "getKGMemcache now query None w = None \<Longrightarrow> now \<le> now2 \<Longrightarrow>
   getKGMemcache now2 query fGet2 w = None"
  by (auto simp: getKGMemcache_def memcache_Get_def split: option.splits if_splits)

lemma backend_calls_log [simp]:
  "backend_calls (w\<lparr>kg_events := kg_events w @ [KGLogLine s m]\<rparr>) = backend_calls w"
  by (simp add: backend_calls_def)

lemma backend_calls_setKGMemcache [simp]:
  "backend_calls (setKGMemcache now query r fSet w) = backend_calls w"
  by (simp add: backend_calls_def setKGMemcache_def memcache_Set_def split: option.splits)

lemma TryFindKGEntity_miss_calls:
  assumes "getKGMemcache now query fGet w = None"
  shows "backend_calls (snd (TryFindKGEntity now query fGet None reply fSet w)) = backend_calls w + 1"
proof -
  obtain out w1 where t: "tryFindKGEntityInternal query None reply w = (out, w1)"
    by (cases "tryFindKGEntityInternal query None reply w")
  from tryFindKGEntityInternal_world [OF t]
  have w1: "backend_calls w1 = backend_calls w + 1" by simp
  show ?thesis
  proof (cases out)
    case Panic
    with assms t w1 show ?thesis by (simp add: TryFindKGEntity_def)
  next
    case (Return p)
    obtain r e where p: "p = (r, e)" by (cases p)
    show ?thesis
    proof (cases e)
      case None
      with assms t w1 Return p show ?thesis by (simp add: TryFindKGEntity_def)
    next
      case (Some err)
      have "backend_calls (w1\<lparr>kg_events := kg_events w1 @ [KGLogLine Warning ''tryFindKGEntityInternal: %v'']\<rparr>)
              = backend_calls w1" by (rule backend_calls_log)
      with assms t w1 Return p Some show ?thesis by (simp add: TryFindKGEntity_def)
    qed
  qed
qed

lemma memcache_tryFindKGEntityInternal:
  "tryFindKGEntityInternal query fService reply w = (out, w1) \<Longrightarrow> memcache w1 = memcache w"
  by (auto simp: tryFindKGEntityInternal_def sendKGEntityQuery_def
      split: option.splits sum.splits list.splits jvalue.splits prod.splits outcome.splits)

text \<open>
  C5. Suppose a call misses the cache and the lookup fails: the service cannot be
  created, or the search returns an error. Then \<open>TryFindKGEntity\<close> returns the empty
  string (it neither panics nor returns an error), the cache is left as it is, and a
  warning is logged. When the cache held no unexpired entry for the query, any later
  call for the same query, whatever the cache service does, sends a search to the
  backend again.
\<close>

theorem TryFindKGEntity_backend_error:
  assumes "getKGMemcache now query fGet w = None" and "fService \<noteq> None \<or> isl reply"
  shows
    "\<exists>w'. TryFindKGEntity now query fGet fService reply fSet w = (Return [], w') \<and>
          memcache w' = memcache w \<and>
          KGLogLine Warning ''tryFindKGEntityInternal: %v'' \<in> set (kg_events w') \<and>
          (getKGMemcache now query None w = None \<longrightarrow>
             (\<forall>now2 fGet2 reply2 fSet2.
                now \<le> now2 \<longrightarrow>
                backend_calls (snd (TryFindKGEntity now2 query fGet2 None reply2 fSet2 w')) =
                  backend_calls w' + 1))"
proof -
  let ?w' = "w\<lparr>kg_events := kg_events w @
         (if fService = None then [KGSearchCall query [''ja'', ''zh''] [''Person''] 1] else []) @
         [KGLogLine Warning ''tryFindKGEntityInternal: %v'']\<rparr>"
  have r: "TryFindKGEntity now query fGet fService reply fSet w = (Return [], ?w')"
    by (rule TryFindKGEntity_error [OF assms])
  have "backend_calls (snd (TryFindKGEntity now2 query fGet2 None reply2 fSet2 ?w')) =
               backend_calls ?w' + 1"
    if c: "getKGMemcache now query None w = None" and l: "now \<le> now2"
    for now2 fGet2 reply2 fSet2
  proof -
    have m: "getKGMemcache now query None ?w' = None"
      using c by (simp add: getKGMemcache_def memcache_Get_def)
    show ?thesis
      by (rule TryFindKGEntity_miss_calls [OF getKGMemcache_later [OF m l]])
  qed
  with r show ?thesis by simp
qed

text \<open>
  The theorem at a concrete input: the search fails on an empty cache; the next call
  is the second search sent.
\<close>

theorem TryFindKGEntity_backend_error_witness:
  "TryFindKGEntity 0 ''q'' None None (Inl (ErrService ''down'')) None example_kg_world =
     (Return [],
      \<lparr>memcache = [],
       kg_events = [KGSearchCall ''q'' [''ja'', ''zh''] [''Person''] 1,
                    KGLogLine Warning ''tryFindKGEntityInternal: %v'']\<rparr>) \<and>
   backend_calls
     (snd (TryFindKGEntity 5 ''q'' None None (Inr example_reply) None
        \<lparr>memcache = [],
         kg_events = [KGSearchCall ''q'' [''ja'', ''zh''] [''Person''] 1,
                      KGLogLine Warning ''tryFindKGEntityInternal: %v'']\<rparr>)) = 2"
proof -
  have a: "getKGMemcache 0 ''q'' None example_kg_world = None"
    by (simp add: getKGMemcache_def memcache_Get_def example_kg_world_def)
  have b: "None \<noteq> (None :: fault) \<or> isl (Inl (ErrService ''down'') :: error + jvalue list)" by simp
  from TryFindKGEntity_backend_error [OF a b, where fSet = None]
  show ?thesis
    by (simp add: TryFindKGEntity_def getKGMemcache_def memcache_Get_def example_kg_world_def
        tryFindKGEntityInternal_def sendKGEntityQuery_def example_reply_def index_def TrimPrefix_def
        setKGMemcache_def memcache_Set_def backend_calls_def)
qed


text \<open>
  C6 (as amended). A call that finds the query in the cache returns the cached value
  and leaves the world as it is: no search is sent. A call that misses the cache and
  obtains the result \<open>r\<close> without error returns \<open>r\<close> after exactly one search, and,
  the cache service going through, stores \<open>r\<close> under the key of the query with the
  expiry \<open>now + 4 * Hour\<close>; every call for the same query before that instant, the
  cache service going through, returns \<open>r\<close> and leaves the world as it is. So the two
  calls send exactly one search together.
\<close>

theorem TryFindKGEntity_cache:
  "(getKGMemcache now query fGet w = Some v \<longrightarrow>
      TryFindKGEntity now query fGet fService reply fSet w = (Return v, w)) \<and>
   (getKGMemcache now query fGet w = None \<and>
    tryFindKGEntityInternal query fService reply w = (Return (r, None), w1) \<longrightarrow>
      TryFindKGEntity now query fGet fService reply fSet w =
        (Return r, setKGMemcache now query r fSet w1) \<and>
      backend_calls (setKGMemcache now query r fSet w1) = backend_calls w + 1 \<and>
      (fSet = None \<longrightarrow>
         memcache (setKGMemcache now query r fSet w1) =
           AList.update (getKGMemcacheKey query) (r, now + 4 * Hour) (memcache w) \<and>
         (\<forall>now2 fService2 reply2 fSet2.
            now2 < now + 4 * Hour \<longrightarrow>
            TryFindKGEntity now2 query None fService2 reply2 fSet2
                (setKGMemcache now query r fSet w1) =
              (Return r, setKGMemcache now query r fSet w1))))"
proof (intro conjI impI allI)
  assume "getKGMemcache now query fGet w = Some v"
  then show "TryFindKGEntity now query fGet fService reply fSet w = (Return v, w)"
    by (rule TryFindKGEntity_hit)
next
  assume a: "getKGMemcache now query fGet w = None \<and>
    tryFindKGEntityInternal query fService reply w = (Return (r, None), w1)"
  then show "TryFindKGEntity now query fGet fService reply fSet w =
        (Return r, setKGMemcache now query r fSet w1)"
    by (simp add: TryFindKGEntity_def)
  from a tryFindKGEntityInternal_success [of query fService reply w r w1]
  show "backend_calls (setKGMemcache now query r fSet w1) = backend_calls w + 1"
    by simp
  assume f: "fSet = None"
  from a memcache_tryFindKGEntityInternal [of query fService reply w _ w1] f
  show "memcache (setKGMemcache now query r fSet w1) =
           AList.update (getKGMemcacheKey query) (r, now + 4 * Hour) (memcache w)"
    by (simp add: setKGMemcache_def memcache_Set_def)
  fix now2 fService2 reply2 fSet2
  assume "now2 < now + 4 * Hour"
  then have "getKGMemcache now2 query None (setKGMemcache now query r None w1) = Some r"
    by (rule getKGMemcache_after_set)
  with f show "TryFindKGEntity now2 query None fService2 reply2 fSet2
                (setKGMemcache now query r fSet w1) =
              (Return r, setKGMemcache now query r fSet w1)"
    by (simp add: TryFindKGEntity_hit)
qed

text \<open>
  The theorem at a concrete input: the first call sends a search and stores the
  identifier; the second call returns it from the cache.
\<close>

theorem TryFindKGEntity_cache_witness:
  "TryFindKGEntity 0 ''q'' None None (Inr example_reply) None example_kg_world =
     (Return ''/m/0abc'',
      \<lparr>memcache = [(''KG1:q'', ''/m/0abc'', 4 * Hour)],
       kg_events = [KGSearchCall ''q'' [''ja'', ''zh''] [''Person''] 1]\<rparr>) \<and>
   TryFindKGEntity 5 ''q'' None None (Inr example_reply) None
      \<lparr>memcache = [(''KG1:q'', ''/m/0abc'', 4 * Hour)],
       kg_events = [KGSearchCall ''q'' [''ja'', ''zh''] [''Person''] 1]\<rparr> =
     (Return ''/m/0abc'',
      \<lparr>memcache = [(''KG1:q'', ''/m/0abc'', 4 * Hour)],
       kg_events = [KGSearchCall ''q'' [''ja'', ''zh''] [''Person''] 1]\<rparr>)"
  using TryFindKGEntity_cache [where now = 0 and query = "''q''" and fGet = None and fService = None
      and reply = "Inr example_reply" and fSet = None and w = example_kg_world and r = "''/m/0abc''"
      and ?w1.0 = "\<lparr>memcache = [], kg_events = [KGSearchCall ''q'' [''ja'', ''zh''] [''Person''] 1]\<rparr>"]
  by (simp add: TryFindKGEntity_def getKGMemcache_def memcache_Get_def example_kg_world_def
        tryFindKGEntityInternal_def sendKGEntityQuery_def example_reply_def index_def TrimPrefix_def
        setKGMemcache_def memcache_Set_def getKGMemcacheKey_def kgMemcacheKey_def Hour_def)

text \<open>
  The claim as stated fails: when the first search fails, two calls in a row send two
  searches; when the cache already holds the query, they send none.
\<close>

theorem TryFindKGEntity_two_calls_counterexample:
  "backend_calls example_kg_world = 0 \<and>
   backend_calls
     (snd (TryFindKGEntity 5 ''q'' None None (Inr example_reply) None
        (snd (TryFindKGEntity 0 ''q'' None None (Inl (ErrService ''down'')) None
           example_kg_world)))) = 2 \<and>
   backend_calls
     (snd (TryFindKGEntity 5 ''q'' None None (Inr example_reply) None
        (snd (TryFindKGEntity 0 ''q'' None None (Inr example_reply) None
           \<lparr>memcache = [(''KG1:q'', ''/m/0abc'', 4 * Hour)], kg_events = []\<rparr>)))) = 0"
  by (simp add: TryFindKGEntity_def getKGMemcache_def memcache_Get_def example_kg_world_def
        tryFindKGEntityInternal_def sendKGEntityQuery_def example_reply_def index_def TrimPrefix_def
        setKGMemcache_def memcache_Set_def getKGMemcacheKey_def kgMemcacheKey_def Hour_def
        backend_calls_def)

section \<open>The keys of the store stay distinct\<close>

text \<open>
  The store is a list of pairs; as a store of entities it holds each key once. Every
  write keeps it so, through the plain context and at commit, and so do the functions
  that write.
\<close>

lemma distinct_apply_pending:
  "distinct (map fst s) \<Longrightarrow> distinct (map fst (apply_pending ms s))"
  by (induction ms s rule: apply_pending.induct) (simp_all add: distinct_update distinct_delete)

lemma nds_Put_distinct:
  "distinct (map fst (committed w)) \<Longrightarrow> distinct (map fst (committed (snd (nds_Put c k e flt w))))"
  by (auto simp: nds_Put_def write_store_def distinct_update split: option.splits ctx.splits sum.splits)

lemma nds_Delete_distinct:
  "distinct (map fst (committed w)) \<Longrightarrow> distinct (map fst (committed (snd (nds_Delete c k flt w))))"
  by (auto simp: nds_Delete_def write_store_def distinct_delete split: option.splits ctx.splits sum.splits)

lemma commit_distinct:
  "distinct (map fst (committed w)) \<Longrightarrow> distinct (map fst (committed (commit w)))"
  by (auto simp: commit_def write_store_def distinct_apply_pending split: option.splits)

lemma ReplaceFileID_distinct:
  "distinct (map fst (committed w)) \<Longrightarrow>
   distinct (map fst (committed (snd (ReplaceFileID oldID newID fBegin fGet fDelete fPut fCommit w))))"
  by (cases "map_of (committed w) (inventoryKey oldID)")
    (auto simp: ReplaceFileID_found ReplaceFileID_missing distinct_update distinct_delete
      split: option.splits)

lemma IncrementUsageCounter_distinct:
  "distinct (map fst (committed w)) \<Longrightarrow>
   distinct (map fst (committed (snd (IncrementUsageCounter fileID now fBegin fGet fPut fCommit w))))"
  by (cases "map_of (committed w) (inventoryKey fileID)")
    (auto simp: IncrementUsageCounter_found IncrementUsageCounter_missing distinct_update
      split: option.splits)

lemma CreateInventory_distinct:
  "distinct (map fst (committed w)) \<Longrightarrow>
   distinct (map fst (committed (snd (CreateInventory fileID ps userID config ft now fGet fPut w))))"
  by (auto simp: CreateInventory_def nds_Get_def nds_Put_def load_def lookup_def Let_def
      write_store_def distinct_update split: option.splits)

end
